theory Spec2Isabelle
  imports Complex_Main
begin

section \<open>Python strings\<close>

text \<open>
  A Python \<open>str\<close> is a sequence of code points. The embedding uses \<^typ>\<open>string\<close> with one
  \<^typ>\<open>char\<close> per code point, so it covers text in the range U+0000..U+00FF (Latin-1).
  Every name of the location tables, every literal of the three modules and every key
  format lies in that range; \<open>len\<close> is \<^const>\<open>length\<close>.
\<close>

abbreviation a_ring :: char where "a_ring \<equiv> CHR 0xE5"
abbreviation a_uml :: char where "a_uml \<equiv> CHR 0xE4"
abbreviation o_uml :: char where "o_uml \<equiv> CHR 0xF6"
abbreviation O_uml :: char where "O_uml \<equiv> CHR 0xD6"

text \<open>
  \<open>str.lower()\<close> on one code point below 256: the upper-case letters are A..Z,
  U+00C0..U+00D6 and U+00D8..U+00DE, each 32 below its lower-case form; every other code
  point of the range is left alone.
\<close>

definition lower_char :: "char \<Rightarrow> char" where
  "lower_char c =
     (let n = (of_char c :: nat)
      in if (65 \<le> n \<and> n \<le> 90) \<or> (192 \<le> n \<and> n \<le> 222 \<and> n \<noteq> 215)
         then char_of (n + 32) else c)"

definition lower :: "string \<Rightarrow> string" where
  "lower s = map lower_char s"

text \<open>
  The upper-case form of a code point, used only to say what a case variation of a name
  is. It is \<open>str.upper()\<close> wherever that stays a single code point below 256 (a..z,
  U+00E0..U+00F6, U+00F8..U+00FE); no program function calls it.
\<close>

definition upper_char :: "char \<Rightarrow> char" where
  "upper_char c =
     (let n = (of_char c :: nat)
      in if (97 \<le> n \<and> n \<le> 122) \<or> (224 \<le> n \<and> n \<le> 254 \<and> n \<noteq> 247)
         then char_of (n - 32) else c)"

text \<open>\<open>t\<close> is a case variation of \<open>s\<close>: position by position, the same letter in either case.\<close>

definition case_variation :: "string \<Rightarrow> string \<Rightarrow> bool" where
  "case_variation s t = list_all2 (\<lambda>a b. b = a \<or> b = upper_char a \<or> b = lower_char a) s t"

text \<open>
  The spelling without accents, used only to pair the two spellings of a place in the
  table: o with diaeresis (U+00F6) becomes \<open>o\<close>, a with diaeresis (U+00E4) and a with
  ring (U+00E5) become \<open>a\<close>.
\<close>

definition deaccent_char :: "char \<Rightarrow> char" where
  "deaccent_char c =
     (if c = o_uml then CHR ''o'' else if c = a_uml \<or> c = a_ring then CHR ''a'' else c)"

text \<open>\<open>s.startswith(p)\<close> and \<open>p in s\<close>.\<close>

fun startswith :: "string \<Rightarrow> string \<Rightarrow> bool" where
  "startswith s [] = True"
| "startswith [] (p # ps) = False"
| "startswith (c # cs) (p # ps) = (c = p \<and> startswith cs ps)"

fun contains :: "string \<Rightarrow> string \<Rightarrow> bool" where
  "contains [] p = (p = [])"
| "contains (c # cs) p = (startswith (c # cs) p \<or> contains cs p)"

text \<open>
  \<open>s.replace(old, new)\<close>: the occurrences of \<open>old\<close> are found from the left and do not
  overlap. With an empty \<open>old\<close> Python puts \<open>new\<close> before every code point and at the end.
\<close>

function replace :: "string \<Rightarrow> string \<Rightarrow> string \<Rightarrow> string" where
  "replace s old new =
     (if old = [] then new @ concat (map (\<lambda>c. c # new) s)
      else if s = [] then []
      else if startswith s old then new @ replace (drop (length old) s) old new
      else hd s # replace (tl s) old new)"
  by pat_completeness auto
termination
  by (relation "measure (\<lambda>(s, old, new). length s)") (auto simp: neq_Nil_conv)

declare replace.simps [simp del]

text \<open>\<open>sep.join(xs)\<close>.\<close>

fun join :: "string \<Rightarrow> string list \<Rightarrow> string" where
  "join sep [] = []"
| "join sep [x] = x"
| "join sep (x # y # ys) = x @ sep @ join sep (y # ys)"

text \<open>
  \<open>os.path.basename\<close> of \<open>posixpath\<close>: \<open>p[p.rfind('/') + 1:]\<close>, what follows the last
  slash (all of \<open>p\<close> when it has none).
\<close>

definition basename :: "string \<Rightarrow> string" where
  "basename p = rev (takeWhile (\<lambda>c. c \<noteq> CHR ''/'') (rev p))"

section \<open>The location registry\<close>

type_synonym coords = "real \<times> real"

text \<open>
  The two modules the application can import. The script imports the stub; its header says
  to replace \<open>aws_utils_stub\<close> with \<open>aws_utils\<close> to run against AWS.
\<close>

datatype backend = Stub | Live

text \<open>\<open>LOCATION_COORDS\<close> of \<open>aws_utils\<close>, in the order of the dict literal.\<close>

definition LOCATION_COORDS :: "(string \<times> coords) list" where
  "LOCATION_COORDS =
     [(''uppsala'', (59.86, 17.64)),
      (''stockholm'', (59.33, 18.06)),
      (''malm'' @ [o_uml], (55.60, 13.00)),
      (''malmo'', (55.60, 13.00)),
      (''g'' @ [o_uml] @ ''teborg'', (57.71, 11.97)),
      (''goteborg'', (57.71, 11.97)),
      ([o_uml] @ ''rebro'', (59.27, 15.21)),
      (''orebro'', (59.27, 15.21)),
      (''link'' @ [o_uml] @ ''ping'', (58.41, 15.62)),
      (''linkoping'', (58.41, 15.62)),
      (''v'' @ [a_uml] @ ''ster'' @ [a_ring] @ ''s'', (59.61, 16.55)),
      (''vasteras'', (59.61, 16.55)),
      (''lund'', (55.70, 13.19))]"

definition DEFAULT_LOCATION :: string where
  "DEFAULT_LOCATION = ''uppsala''"

text \<open>\<open>LOCATION_COORDS[DEFAULT_LOCATION]\<close>; the key is in the table, so the lookup does not raise.\<close>

definition DEFAULT_COORDS :: coords where
  "DEFAULT_COORDS = (case map_of LOCATION_COORDS DEFAULT_LOCATION of Some c \<Rightarrow> c | None \<Rightarrow> (0, 0))"

text \<open>\<open>LOCATION_COORDS\<close> and \<open>DEFAULT_LOCATION\<close> of \<open>aws_utils_stub\<close>.\<close>

definition STUB_LOCATION_COORDS :: "(string \<times> coords) list" where
  "STUB_LOCATION_COORDS =
     [(''Uppsala'', (59.86, 17.64)),
      (''Stockholm'', (59.33, 18.06)),
      (''Malm'' @ [o_uml], (55.60, 13.00)),
      (''G'' @ [o_uml] @ ''teborg'', (57.71, 11.97)),
      ([O_uml] @ ''rebro'', (59.27, 15.21)),
      (''Link'' @ [o_uml] @ ''ping'', (58.41, 15.62)),
      (''Vasteras'', (59.61, 16.55)),
      (''Lund'', (55.70, 13.19))]"

definition STUB_DEFAULT_LOCATION :: string where
  "STUB_DEFAULT_LOCATION = ''Stockholm''"

text \<open>
  \<open>get_coordinates(location_name)\<close>. The argument is \<open>None\<close> or a string; \<open>not location_name\<close>
  holds for \<open>None\<close> and for the empty string. A table entry is a pair, which is truthy, so
  \<open>if coords\<close> tests that the key was found.
\<close>

definition get_coordinates :: "string option \<Rightarrow> coords" where
  "get_coordinates location_name =
     (case location_name of
        None \<Rightarrow> DEFAULT_COORDS
      | Some n \<Rightarrow>
          if n = [] then DEFAULT_COORDS
          else (case map_of LOCATION_COORDS (lower n) of
                  Some coords \<Rightarrow> coords
                | None \<Rightarrow> DEFAULT_COORDS))"

section \<open>Decoded JSON and the exceptions of the built-in operations\<close>

text \<open>
  What \<open>response.json()\<close> returns: \<open>None\<close>, a bool, a number, a string, a list, or a dict
  with string keys. A dict is an association list read with \<^const>\<open>map_of\<close>.
\<close>

datatype json =
    JNull
  | JBool bool
  | JNum real
  | JStr string
  | JArr "json list"
  | JObj "(string \<times> json) list"

datatype exn = KeyError | TypeError | IndexError | AttributeError | ValueError

definition truthy :: "json \<Rightarrow> bool" where
  "truthy v =
     (case v of
        JNull \<Rightarrow> False
      | JBool b \<Rightarrow> b
      | JNum x \<Rightarrow> x \<noteq> 0
      | JStr s \<Rightarrow> s \<noteq> []
      | JArr xs \<Rightarrow> xs \<noteq> []
      | JObj kvs \<Rightarrow> kvs \<noteq> [])"

text \<open>\<open>v.get(k)\<close>: only a dict has the method; a missing key gives \<open>None\<close>.\<close>

definition dict_get :: "json \<Rightarrow> string \<Rightarrow> exn + json" where
  "dict_get v k =
     (case v of
        JObj kvs \<Rightarrow> (case map_of kvs k of Some x \<Rightarrow> Inr x | None \<Rightarrow> Inr JNull)
      | _ \<Rightarrow> Inl AttributeError)"

text \<open>\<open>v[k]\<close> with a string key \<open>k\<close>.\<close>

definition subscript_key :: "json \<Rightarrow> string \<Rightarrow> exn + json" where
  "subscript_key v k =
     (case v of
        JObj kvs \<Rightarrow> (case map_of kvs k of Some x \<Rightarrow> Inr x | None \<Rightarrow> Inl KeyError)
      | _ \<Rightarrow> Inl TypeError)"

text \<open>
  \<open>v[0]\<close>: the first element of a list, the first code point of a string (as a string);
  a decoded dict has no key \<open>0\<close>.
\<close>

definition subscript_0 :: "json \<Rightarrow> exn + json" where
  "subscript_0 v =
     (case v of
        JArr xs \<Rightarrow> (case xs of [] \<Rightarrow> Inl IndexError | x # _ \<Rightarrow> Inr x)
      | JStr s \<Rightarrow> (case s of [] \<Rightarrow> Inl IndexError | c # _ \<Rightarrow> Inr (JStr [c]))
      | JObj kvs \<Rightarrow> Inl KeyError
      | _ \<Rightarrow> Inl TypeError)"

text \<open>\<open>for x in v\<close>: the elements of a list, the code points of a string, the keys of a dict.\<close>

definition iterate :: "json \<Rightarrow> exn + json list" where
  "iterate v =
     (case v of
        JArr xs \<Rightarrow> Inr xs
      | JStr s \<Rightarrow> Inr (map (\<lambda>c. JStr [c]) s)
      | JObj kvs \<Rightarrow> Inr (map (\<lambda>kv. JStr (fst kv)) kvs)
      | _ \<Rightarrow> Inl TypeError)"

text \<open>A list or a dict cannot be a dict key.\<close>

definition hashable :: "json \<Rightarrow> bool" where
  "hashable v = (case v of JArr _ \<Rightarrow> False | JObj _ \<Rightarrow> False | _ \<Rightarrow> True)"

text \<open>Sequencing of statements that may raise.\<close>

definition try_bind :: "exn + 'a \<Rightarrow> ('a \<Rightarrow> exn + 'b) \<Rightarrow> exn + 'b" where
  "try_bind m f = (case m of Inl e \<Rightarrow> Inl e | Inr x \<Rightarrow> f x)"

section \<open>The weather fetch\<close>

text \<open>The dict \<open>weather_result\<close>; a reading is whatever value the payload holds, or \<open>"N/A"\<close>.\<close>

record weather =
  temp :: json
  humidity :: json
  precip :: json
  error :: "string option"

abbreviation NA :: json where "NA \<equiv> JStr ''N/A''"

definition weather_result :: weather where
  "weather_result = \<lparr>temp = NA, humidity = NA, precip = NA, error = None\<rparr>"

text \<open>
  The exceptions \<open>requests.get\<close>, \<open>raise_for_status\<close> and \<open>response.json()\<close> can raise,
  by class. A body that does not decode makes \<open>response.json()\<close> of requests 2.27 and
  later raise \<open>requests.exceptions.JSONDecodeError\<close>, which is both a \<open>RequestException\<close>
  and a \<open>json.JSONDecodeError\<close>; older versions raise the plain \<open>json.JSONDecodeError\<close>
  (or the one of simplejson, which is neither class: \<open>OtherError\<close>).
\<close>

datatype fetch_exception =
    ConnectionError
  | Timeout
  | HTTPError
  | RequestsJSONDecodeError
  | PlainJSONDecodeError
  | OtherError

definition is_RequestException :: "fetch_exception \<Rightarrow> bool" where
  "is_RequestException e =
     (e = ConnectionError \<or> e = Timeout \<or> e = HTTPError \<or> e = RequestsJSONDecodeError)"

definition is_JSONDecodeError :: "fetch_exception \<Rightarrow> bool" where
  "is_JSONDecodeError e = (e = RequestsJSONDecodeError \<or> e = PlainJSONDecodeError)"

text \<open>What the request does: raise one of these, or give the decoded body.\<close>

datatype http_outcome =
    Raises fetch_exception
  | Body json

text \<open>
  The dict comprehension \<open>{param["name"]: param["values"][0] for param in ...}\<close>: key
  first, then value, then the store, which needs a hashable key. The result lists the
  stores in order; a later store to the same key replaces the earlier one.
\<close>

fun build_parameters :: "json list \<Rightarrow> exn + (json \<times> json) list" where
  "build_parameters [] = Inr []"
| "build_parameters (param # rest) =
     try_bind (subscript_key param ''name'') (\<lambda>k.
     try_bind (subscript_key param ''values'') (\<lambda>vs.
     try_bind (subscript_0 vs) (\<lambda>v.
       if \<not> hashable k then Inl TypeError
       else try_bind (build_parameters rest) (\<lambda>ps. Inr ((k, v) # ps)))))"

text \<open>\<open>parameters.get(k, "N/A")\<close>.\<close>

definition parameters_get :: "(json \<times> json) list \<Rightarrow> string \<Rightarrow> json" where
  "parameters_get ps k = (case map_of (rev ps) (JStr k) of Some v \<Rightarrow> v | None \<Rightarrow> NA)"

text \<open>The statements of the \<open>try\<close> block after \<open>response.json()\<close>.\<close>

definition read_weather_data :: "json \<Rightarrow> exn + weather" where
  "read_weather_data weather_data =
     try_bind (dict_get weather_data ''timeSeries'') (\<lambda>ts.
       if \<not> truthy ts
       then Inr (weather_result\<lparr>error := Some ''SMHI API data format error.''\<rparr>)
       else
         try_bind (subscript_key weather_data ''timeSeries'') (\<lambda>ts.
         try_bind (subscript_0 ts) (\<lambda>first_forecast.
         try_bind (subscript_key first_forecast ''parameters'') (\<lambda>plist.
         try_bind (iterate plist) (\<lambda>params.
         try_bind (build_parameters params) (\<lambda>parameters.
           Inr (weather_result
                  \<lparr>temp := parameters_get parameters ''t'',
                   humidity := parameters_get parameters ''r'',
                   precip := parameters_get parameters ''pmean''\<rparr>)))))))"

text \<open>
  \<open>get_weather_for_location\<close> of \<open>aws_utils\<close>. The request is determined by the
  coordinates (the URL carries them with two decimals); \<open>http\<close> is what the service and
  the network do with it. The three \<open>except\<close> clauses are tried in order, so an
  exception that is a \<open>RequestException\<close> is answered by the first one, also when it is a
  \<open>json.JSONDecodeError\<close> as well. An exception raised while the body is read (\<open>KeyError\<close>,
  \<open>TypeError\<close>, \<open>IndexError\<close>, \<open>AttributeError\<close>) is of neither class.
\<close>

definition get_weather_for_location :: "(coords \<Rightarrow> http_outcome) \<Rightarrow> string option \<Rightarrow> weather" where
  "get_weather_for_location http location_name =
     (case http (get_coordinates location_name) of
        Raises e \<Rightarrow>
          if is_RequestException e
          then weather_result\<lparr>error := Some ''Could not reach weather service.''\<rparr>
          else if is_JSONDecodeError e
          then weather_result\<lparr>error := Some ''Error reading weather data.''\<rparr>
          else weather_result\<lparr>error := Some ''Unexpected weather error.''\<rparr>
      | Body weather_data \<Rightarrow>
          (case read_weather_data weather_data of
             Inr r \<Rightarrow> r
           | Inl e \<Rightarrow> weather_result\<lparr>error := Some ''Unexpected weather error.''\<rparr>))"

text \<open>
  \<open>get_weather_for_location\<close> of \<open>aws_utils_stub\<close>. \<open>round(n, 1)\<close> of an integer is that
  integer; \<open>round(k * 0.1, 1)\<close> for \<open>k\<close> in 0..4 is the one-decimal number \<open>k / 10\<close>.
\<close>

definition stub_get_weather_for_location :: "string \<Rightarrow> weather" where
  "stub_get_weather_for_location location_name =
     \<lparr>temp = JNum (real (10 + length location_name mod 15)),
      humidity = JNum (real (60 + length location_name mod 30)),
      precip = JNum (real (length location_name mod 5) / 10),
      error = None\<rparr>"

section \<open>The upload\<close>

text \<open>An attribute of an object: missing, or present with a value.\<close>

datatype 'a attribute = Missing | Present 'a

text \<open>
  The file object handed to \<open>upload_to_s3\<close>: its \<open>filename\<close> attribute (a \<open>BytesIO\<close> has
  none; when present it holds \<open>None\<close> or a string) and its bytes.
\<close>

record file_obj =
  filename :: "string option attribute"
  payload :: "nat list"

text \<open>What \<open>s3_client.upload_fileobj\<close> does: return, raise \<open>ClientError\<close>, raise anything else.\<close>

datatype s3_outcome = Uploaded | S3ClientError | S3OtherError

text \<open>
  \<open>upload_to_s3\<close> of \<open>aws_utils\<close>. \<open>uuid4\<close> is the text of the \<open>uuid.uuid4()\<close> drawn by this
  call; \<open>s3\<close> is what the store does with a bucket and a key. The name is built only when
  \<open>object_name is None\<close>; a name the caller passes is the key as it is.
  \<open>getattr(file_obj, 'filename', None)\<close> is \<open>None\<close> for a missing attribute and for one that
  holds \<open>None\<close>.
\<close>

definition upload_to_s3 ::
  "string \<Rightarrow> (string \<Rightarrow> string \<Rightarrow> s3_outcome) \<Rightarrow> file_obj \<Rightarrow> string \<Rightarrow> string option \<Rightarrow> string option"
where
  "upload_to_s3 uuid4 s3 f bucket_name object_name =
     (let key =
        (case object_name of
           Some n \<Rightarrow> n
         | None \<Rightarrow>
             (case (case filename f of Missing \<Rightarrow> None | Present v \<Rightarrow> v) of
                None \<Rightarrow> ''uploads/'' @ uuid4
              | Some fn \<Rightarrow>
                  if fn = [] then ''uploads/'' @ uuid4
                  else ''uploads/'' @ uuid4 @ ''-'' @
                       replace (replace (basename fn) ''..'' ''_'') ''/'' ''_''))
      in case s3 bucket_name key of
           Uploaded \<Rightarrow> Some key
         | S3ClientError \<Rightarrow> None
         | S3OtherError \<Rightarrow> None)"

text \<open>
  \<open>upload_to_s3\<close> of \<open>aws_utils_stub\<close>: no store is called. The trial read of the file is
  inside its own \<open>try\<close> and changes nothing that is returned.
  \<open>getattr(file_obj, 'filename', 'unknown_file')\<close> is the default only for a missing
  attribute; an attribute that holds \<open>None\<close>, with no \<open>object_name\<close>, reaches
  \<open>os.path.basename(None)\<close>, which raises \<open>TypeError\<close> outside any \<open>try\<close>.
\<close>

definition stub_upload_to_s3 ::
  "string \<Rightarrow> file_obj \<Rightarrow> string \<Rightarrow> string option \<Rightarrow> exn + string option"
where
  "stub_upload_to_s3 uuid4 f bucket_name object_name =
     (let original_filename =
            (case filename f of Missing \<Rightarrow> Some ''unknown_file'' | Present v \<Rightarrow> v);
          name = (case object_name of None \<Rightarrow> original_filename | Some n \<Rightarrow> Some n)
      in case name of
           None \<Rightarrow> Inl TypeError
         | Some n \<Rightarrow> Inr (Some (''uploads/'' @ uuid4 @ ''-'' @ basename n)))"

section \<open>The conversational engine\<close>

text \<open>One entry of \<open>response['messages']\<close>: the keys \<open>contentType\<close> and \<open>content\<close>, when present.\<close>

record lex_message =
  contentType :: "string option"
  content :: "string option"

text \<open>The keyword arguments of \<open>lex_client.recognize_text\<close>.\<close>

record lex_request =
  botId :: string
  botAliasId :: string
  localeId :: string
  sessionId :: string
  text_in :: string
  sessionAttributes :: "(string \<times> string) list"

text \<open>
  What \<open>recognize_text\<close> does: return a response (with its \<open>messages\<close> list when the key is
  there), raise \<open>ClientError\<close> (with the error code of \<open>e.response\<close> when there is one), or
  raise anything else.
\<close>

datatype lex_outcome =
    LexResponse "lex_message list option"
  | LexClientError "string option"
  | LexOtherError

text \<open>
  The loop over \<open>response['messages']\<close>: \<open>msg['content']\<close> raises \<open>KeyError\<close> when a
  plain-text message has no content.
\<close>

fun collect_messages :: "lex_message list \<Rightarrow> exn + string list" where
  "collect_messages [] = Inr []"
| "collect_messages (msg # rest) =
     (if contentType msg = Some ''PlainText''
      then (case content msg of
              None \<Rightarrow> Inl KeyError
            | Some c \<Rightarrow> try_bind (collect_messages rest) (\<lambda>ms. Inr (c # ms)))
      else collect_messages rest)"

text \<open>\<open>f"{error_code}"\<close>: \<open>None\<close> prints as \<open>None\<close>.\<close>

definition format_code :: "string option \<Rightarrow> string" where
  "format_code error_code = (case error_code of None \<Rightarrow> ''None'' | Some c \<Rightarrow> c)"

abbreviation apostrophe :: char where "apostrophe \<equiv> CHR 0x27"

text \<open>\<open>post_text_to_lex\<close> of \<open>aws_utils\<close>; \<open>session_attributes=None\<close> becomes the empty dict.\<close>

definition post_text_to_lex ::
  "(lex_request \<Rightarrow> lex_outcome) \<Rightarrow> string \<Rightarrow> string \<Rightarrow> string \<Rightarrow> string \<Rightarrow>
   (string \<times> string) list option \<Rightarrow> string list"
where
  "post_text_to_lex recognize_text bot_id alias_id session_id input_text session_attributes =
     (let attrs = (case session_attributes of None \<Rightarrow> [] | Some a \<Rightarrow> a)
      in case recognize_text \<lparr>botId = bot_id, botAliasId = alias_id, localeId = ''en_US'',
                    sessionId = session_id, text_in = input_text,
                    sessionAttributes = attrs\<rparr> of
           LexResponse ms \<Rightarrow>
             (case collect_messages (case ms of None \<Rightarrow> [] | Some l \<Rightarrow> l) of
                Inl e \<Rightarrow> [''An unexpected error occurred.'']
              | Inr messages \<Rightarrow>
                  if messages = []
                  then [''Sorry, I didn'' @ [apostrophe] @ ''t get a response. Try again.'']
                  else messages)
         | LexClientError error_code \<Rightarrow>
             if error_code = Some ''AccessDeniedException''
             then [''Error: Access denied when calling Lex. Check UI credentials.'']
             else if error_code = Some ''ResourceNotFoundException''
             then [''Error: Lex bot or alias not found. Check configuration.'']
             else [''An error occurred communicating with the bot ('' @ format_code error_code @ '').'']
         | LexOtherError \<Rightarrow> [''An unexpected error occurred.''])"

text \<open>
  \<open>post_text_to_lex\<close> of \<open>aws_utils_stub\<close>: canned replies chosen by the words of the input.
  \<open>response_message\<close> gains the location sentence when the attributes are a non-empty dict
  holding \<open>currentLocation\<close>.
\<close>

definition stub_post_text_to_lex ::
  "string \<Rightarrow> string \<Rightarrow> string \<Rightarrow> string \<Rightarrow> (string \<times> string) list option \<Rightarrow> string list"
where
  "stub_post_text_to_lex bot_id alias_id session_id input_text session_attributes =
     (let response_message =
            ''Okay, you asked about '' @ [apostrophe] @ input_text @ [apostrophe] @ ''.'' @
            (case session_attributes of
               None \<Rightarrow> []
             | Some a \<Rightarrow>
                 (case map_of a ''currentLocation'' of
                    None \<Rightarrow> []
                  | Some l \<Rightarrow> '' Location context is '' @ [apostrophe] @ l @ [apostrophe] @ ''.''))
      in if contains (lower input_text) ''risk'' \<or> contains (lower input_text) ''high''
         then [''Weather indicates high risk based on your query.'',
               ''Please provide the filename of the uploaded image for analysis.'']
         else if contains (lower input_text) ''filename'' \<or> contains (lower input_text) ''.jpg''
                 \<or> contains (lower input_text) ''.png''
         then [''Okay, analyzing image '' @ [apostrophe] @ input_text @ [apostrophe] @ '' (simulated).'',
               ''Diagnosis: Healthy (Confidence: 95.0%) - This is a stub result.'']
         else [response_message])"

section \<open>The application script\<close>

text \<open>
  Streamlit runs the script from top to bottom on every user action, with the values of
  the widgets as input and \<open>st.session_state\<close> as the only memory. One such pass is the
  function \<open>run_script\<close>; \<open>st.rerun()\<close> and \<open>st.stop()\<close> end the pass where they stand.
\<close>

text \<open>One entry of \<open>st.session_state.messages\<close>: \<open>{"role": ..., "content": ...}\<close>.\<close>

record message =
  role :: string
  body :: string

text \<open>The decoded picture kept for display; it is identified with the bytes it came from.\<close>

type_synonym image = "nat list"

text \<open>
  \<open>st.session_state\<close>: each key is absent (\<open>None\<close>) or holds a value. The two upload keys
  hold \<open>None\<close> or a value when present.
\<close>

record session_state =
  lex_session_id :: "string option"
  messages :: "message list option"
  current_location :: "string option"
  current_weather :: "weather option"
  uploaded_image :: "image option option"
  uploaded_image_key :: "string option option"

definition empty_state :: session_state where
  "empty_state =
     \<lparr>lex_session_id = None, messages = None, current_location = None,
      current_weather = None, uploaded_image = None, uploaded_image_key = None\<rparr>"

text \<open>The six keys once the initialization block has run: all present.\<close>

record session =
  sid :: string
  msgs :: "message list"
  loc :: string
  wx :: weather
  img :: "image option"
  img_key :: "string option"

definition stored :: "session \<Rightarrow> session_state" where
  "stored s =
     \<lparr>lex_session_id = Some (sid s), messages = Some (msgs s), current_location = Some (loc s),
      current_weather = Some (wx s), uploaded_image = Some (img s),
      uploaded_image_key = Some (img_key s)\<rparr>"

text \<open>The three environment variables read at the top; a missing one stops the script.\<close>

record config =
  S3_BUCKET :: string
  LEX_BOT_ID :: string
  LEX_BOT_ALIAS_ID :: string

text \<open>
  What lies outside the program during one pass: the two \<open>uuid4\<close> draws (session id, upload
  key) and the behaviour of the weather service, the object store and the bot.
\<close>

record world =
  uuid_session :: string
  uuid_upload :: string
  http :: "coords \<Rightarrow> http_outcome"
  s3 :: "string \<Rightarrow> string \<Rightarrow> s3_outcome"
  recognize_text :: "lex_request \<Rightarrow> lex_outcome"

text \<open>
  The file in the uploader widget: its name, its bytes, and whether \<open>Image.open\<close> and
  \<open>st.image\<close> accept the bytes (they raise otherwise). The decoder goes by the content of
  the file, not by its name.
\<close>

record uploaded_file =
  file_name :: string
  file_bytes :: "nat list"
  file_opens :: bool

text \<open>
  The widget values of one pass. The select box opens at the index of the current
  location, so it returns the current location unless the user picked another entry
  (\<open>Some\<close>). \<open>st.chat_input\<close> returns \<open>None\<close> or the submitted text.
\<close>

record inputs =
  selected_location :: "string option"
  prompt :: "string option"
  uploaded :: "uploaded_file option"

text \<open>The module attributes and functions the script uses, for either module.\<close>

definition module_DEFAULT_LOCATION :: "backend \<Rightarrow> string" where
  "module_DEFAULT_LOCATION b = (case b of Stub \<Rightarrow> STUB_DEFAULT_LOCATION | Live \<Rightarrow> DEFAULT_LOCATION)"

definition module_LOCATION_COORDS :: "backend \<Rightarrow> (string \<times> coords) list" where
  "module_LOCATION_COORDS b = (case b of Stub \<Rightarrow> STUB_LOCATION_COORDS | Live \<Rightarrow> LOCATION_COORDS)"

definition AVAILABLE_LOCATIONS :: "backend \<Rightarrow> string list" where
  "AVAILABLE_LOCATIONS b = map fst (module_LOCATION_COORDS b)"

definition module_get_weather_for_location :: "backend \<Rightarrow> world \<Rightarrow> string \<Rightarrow> weather" where
  "module_get_weather_for_location b w location =
     (case b of
        Stub \<Rightarrow> stub_get_weather_for_location location
      | Live \<Rightarrow> get_weather_for_location (http w) (Some location))"

definition module_upload_to_s3 ::
  "backend \<Rightarrow> world \<Rightarrow> file_obj \<Rightarrow> string \<Rightarrow> string option \<Rightarrow> exn + string option"
where
  "module_upload_to_s3 b w f bucket_name object_name =
     (case b of
        Stub \<Rightarrow> stub_upload_to_s3 (uuid_upload w) f bucket_name object_name
      | Live \<Rightarrow> Inr (upload_to_s3 (uuid_upload w) (s3 w) f bucket_name object_name))"

definition module_post_text_to_lex ::
  "backend \<Rightarrow> world \<Rightarrow> string \<Rightarrow> string \<Rightarrow> string \<Rightarrow> string \<Rightarrow>
   (string \<times> string) list option \<Rightarrow> string list"
where
  "module_post_text_to_lex b w bot_id alias_id session_id input_text session_attributes =
     (case b of
        Stub \<Rightarrow> stub_post_text_to_lex bot_id alias_id session_id input_text session_attributes
      | Live \<Rightarrow> post_text_to_lex (recognize_text w) bot_id alias_id session_id input_text
                  session_attributes)"

text \<open>The calls to the module and the appends to the chat history, in the order they happen.\<close>

datatype event =
    Appended message
  | PostTextToLex string string string string "(string \<times> string) list option"
  | GetWeather string
  | UploadToS3 string "string option"

datatype outcome = Completed | Rerun | Stopped | Raised exn

text \<open>The block \<open>Session State Initialization\<close>: a key is set only when it is absent.\<close>

definition initialize :: "backend \<Rightarrow> world \<Rightarrow> session_state \<Rightarrow> session" where
  "initialize b w st =
     \<lparr>sid = (case lex_session_id st of None \<Rightarrow> ''st-session-'' @ uuid_session w | Some x \<Rightarrow> x),
      msgs = (case messages st of None \<Rightarrow> [] | Some m \<Rightarrow> m),
      loc = (case current_location st of None \<Rightarrow> module_DEFAULT_LOCATION b | Some l \<Rightarrow> l),
      wx = (case current_weather st of None \<Rightarrow> weather_result | Some x \<Rightarrow> x),
      img = (case uploaded_image st of None \<Rightarrow> None | Some i \<Rightarrow> i),
      img_key = (case uploaded_image_key st of None \<Rightarrow> None | Some k \<Rightarrow> k)\<rparr>"

definition update_weather :: "backend \<Rightarrow> world \<Rightarrow> string \<Rightarrow> session \<Rightarrow> session" where
  "update_weather b w location s = s\<lparr>wx := module_get_weather_for_location b w location\<rparr>"

text \<open>
  The header: \<open>AVAILABLE_LOCATIONS.index(current_location)\<close> raises \<open>ValueError\<close> for a
  location that is not in the list; a selection that differs from the current location is
  stored, the weather is fetched for it, and the script reruns.
\<close>

definition location_handler ::
  "backend \<Rightarrow> world \<Rightarrow> string \<Rightarrow> session \<Rightarrow> session \<times> event list"
where
  "location_handler b w selected s =
     (update_weather b w selected (s\<lparr>loc := selected\<rparr>), [GetWeather selected])"

text \<open>
  The chat input: the user turn is appended, the bot is called with the location as its
  only session attribute, the replies are joined with \<open>"\n\n"\<close> and appended as one
  assistant turn.
\<close>

definition chat_handler ::
  "backend \<Rightarrow> config \<Rightarrow> world \<Rightarrow> string \<Rightarrow> session \<Rightarrow> session \<times> event list"
where
  "chat_handler b c w p s =
     (let user_turn = \<lparr>role = ''user'', body = p\<rparr>;
          s1 = s\<lparr>msgs := msgs s @ [user_turn]\<rparr>;
          lex_attributes = [(''currentLocation'', loc s1)];
          bot_responses =
            module_post_text_to_lex b w (LEX_BOT_ID c) (LEX_BOT_ALIAS_ID c) (sid s1) p
              (Some lex_attributes);
          full_response = join [CHR 0x0A, CHR 0x0A] bot_responses;
          assistant_turn = \<lparr>role = ''assistant'', body = full_response\<rparr>;
          s2 = s1\<lparr>msgs := msgs s1 @ [assistant_turn]\<rparr>
      in (s2,
          [Appended user_turn,
           PostTextToLex (LEX_BOT_ID c) (LEX_BOT_ALIAS_ID c) (sid s1) p (Some lex_attributes),
           Appended assistant_turn]))"

text \<open>
  The upload: a file that does not open, an upload that raises (both end in the \<open>except\<close>
  branch), or an upload that returns \<open>None\<close> or an empty key, clears both upload keys; a
  returned key stores the picture and the base name of the key. The file is passed as a
  \<open>BytesIO\<close>, with the widget's file name as \<open>object_name\<close>.
\<close>

definition upload_handler ::
  "backend \<Rightarrow> config \<Rightarrow> world \<Rightarrow> uploaded_file \<Rightarrow> session \<Rightarrow> session \<times> event list"
where
  "upload_handler b c w f s =
     (if \<not> file_opens f then (s\<lparr>img := None, img_key := None\<rparr>, [])
      else
        (let s3_object_name =
               module_upload_to_s3 b w \<lparr>filename = Missing, payload = file_bytes f\<rparr>
                 (S3_BUCKET c) (Some (file_name f));
             ev = [UploadToS3 (S3_BUCKET c) (Some (file_name f))]
         in case s3_object_name of
              Inl e \<Rightarrow> (s\<lparr>img := None, img_key := None\<rparr>, ev)
            | Inr None \<Rightarrow> (s\<lparr>img := None, img_key := None\<rparr>, ev)
            | Inr (Some k) \<Rightarrow>
                if k = [] then (s\<lparr>img := None, img_key := None\<rparr>, ev)
                else (s\<lparr>img := Some (file_bytes f), img_key := Some (basename k)\<rparr>, ev)))"

text \<open>
  The second column and the end of the script, reached when no rerun happened before: the
  upload when the uploader holds a file, then the first weather fetch while the
  temperature is still \<open>"N/A"\<close>.
\<close>

definition second_column ::
  "backend \<Rightarrow> config \<Rightarrow> world \<Rightarrow> inputs \<Rightarrow> session \<Rightarrow> session_state \<times> event list \<times> outcome"
where
  "second_column b c w inp s0 =
     (let (s1, ev) =
            (case uploaded inp of
               None \<Rightarrow> (s0, [])
             | Some f \<Rightarrow> upload_handler b c w f s0)
      in if temp (wx s1) = NA
         then (stored (update_weather b w (loc s1) s1), ev @ [GetWeather (loc s1)], Rerun)
         else (stored s1, ev, Completed))"

text \<open>One pass of the script. \<open>if prompt := st.chat_input(...)\<close> skips \<open>None\<close> and the empty text.\<close>

definition run_script ::
  "backend \<Rightarrow> config option \<Rightarrow> world \<Rightarrow> inputs \<Rightarrow> session_state \<Rightarrow>
   session_state \<times> event list \<times> outcome"
where
  "run_script b cfg w inp st =
     (case cfg of
        None \<Rightarrow> (st, [], Stopped)
      | Some c \<Rightarrow>
          (let s0 = initialize b w st
           in if loc s0 \<notin> set (AVAILABLE_LOCATIONS b) then (stored s0, [], Raised ValueError)
              else
                (let selected = (case selected_location inp of None \<Rightarrow> loc s0 | Some x \<Rightarrow> x)
                 in if selected \<noteq> loc s0
                    then (let (s1, ev) = location_handler b w selected s0
                          in (stored s1, ev, Rerun))
                    else
                      (case prompt inp of
                         None \<Rightarrow> second_column b c w inp s0
                       | Some p \<Rightarrow>
                           if p = [] then second_column b c w inp s0
                           else (let (s1, ev) = chat_handler b c w p s0
                                 in (stored s1, ev, Rerun))))))"

text \<open>The select box returns one of its options.\<close>

definition valid_inputs :: "backend \<Rightarrow> inputs \<Rightarrow> bool" where
  "valid_inputs b inp =
     (case selected_location inp of None \<Rightarrow> True | Some x \<Rightarrow> x \<in> set (AVAILABLE_LOCATIONS b))"

text \<open>
  The session states a connection can be in: the empty state of a new connection, and
  every state a pass leaves behind, whatever the user enters in the widgets and whatever
  the outside world does.
\<close>

inductive reachable :: "backend \<Rightarrow> session_state \<Rightarrow> bool" for b :: backend where
  reachable_empty: "reachable b empty_state"
| reachable_pass:
    "reachable b st \<Longrightarrow> valid_inputs b inp \<Longrightarrow> reachable b (fst (run_script b cfg w inp st))"

text \<open>A chat history of user/assistant pairs, each pair a user turn then an assistant turn.\<close>

fun alternates :: "message list \<Rightarrow> bool" where
  "alternates [] = True"
| "alternates [m] = False"
| "alternates (m # m' # ms) = (role m = ''user'' \<and> role m' = ''assistant'' \<and> alternates ms)"

definition transcript :: "session_state \<Rightarrow> message list" where
  "transcript st = (case messages st of None \<Rightarrow> [] | Some ms \<Rightarrow> ms)"

section \<open>Vocabulary of the properties\<close>

text \<open>
  The definitions of this section are not part of the program; they name the inputs the
  properties speak about.
\<close>

text \<open>A reading that is a number.\<close>

definition is_num :: "json \<Rightarrow> bool" where
  "is_num v = (case v of JNum _ \<Rightarrow> True | _ \<Rightarrow> False)"

text \<open>
  An entry of the parameter list as the forecast service writes it: a dict with a string
  \<open>name\<close> and a \<open>values\<close> list that starts with a number.
\<close>

definition smhi_parameter :: "json \<Rightarrow> bool" where
  "smhi_parameter p =
     (case p of
        JObj kv \<Rightarrow>
          (case map_of kv ''name'' of
             Some (JStr n) \<Rightarrow>
               (case map_of kv ''values'' of
                  Some (JArr (JNum x # _)) \<Rightarrow> True
                | _ \<Rightarrow> False)
           | _ \<Rightarrow> False)
      | _ \<Rightarrow> False)"

text \<open>The entry \<open>p\<close> is a dict whose \<open>name\<close> is \<open>k\<close>.\<close>

definition param_named :: "string \<Rightarrow> json \<Rightarrow> bool" where
  "param_named k p = (case p of JObj kv \<Rightarrow> map_of kv ''name'' = Some (JStr k) | _ \<Rightarrow> False)"


text \<open>
  A forecast body whose first time step lists the temperature and the humidity but no
  mean precipitation.
\<close>

definition sample_body :: json where
  "sample_body =
     JObj [(''timeSeries'',
            JArr [JObj [(''validTime'', JStr ''2025-05-01T12:00:00Z''),
                        (''parameters'',
                         JArr [JObj [(''name'', JStr ''t''), (''unit'', JStr ''Cel''),
                                     (''values'', JArr [JNum 11.5])],
                               JObj [(''name'', JStr ''r''), (''unit'', JStr ''percent''),
                                     (''values'', JArr [JNum 64])]])]])]"

text \<open>A configuration, an outside world and the widgets of a first page load, for examples.\<close>

definition sample_config :: config where
  "sample_config =
     \<lparr>S3_BUCKET = ''potato-images'', LEX_BOT_ID = ''BOT1234567'', LEX_BOT_ALIAS_ID = ''TSTALIASID''\<rparr>"

definition sample_world :: world where
  "sample_world =
     \<lparr>uuid_session = ''6fa459ea-ee8a-4ca4-894e-db77e160355e'',
      uuid_upload = ''1b4e28ba-2fa1-41d2-883f-0016d3cca427'',
      http = (\<lambda>c. Body sample_body),
      s3 = (\<lambda>b k. Uploaded),
      recognize_text =
        (\<lambda>q. LexResponse (Some [\<lparr>contentType = Some ''PlainText'', content = Some ''Hello''\<rparr>]))\<rparr>"

definition first_load :: inputs where
  "first_load = \<lparr>selected_location = None, prompt = None, uploaded = None\<rparr>"

text \<open>The state the first pass leaves behind with the stub, for the sample world.\<close>

definition sample_state :: session_state where
  "sample_state =
     \<lparr>lex_session_id = Some ''st-session-6fa459ea-ee8a-4ca4-894e-db77e160355e'',
      messages = Some [],
      current_location = Some ''Stockholm'',
      current_weather = Some (stub_get_weather_for_location ''Stockholm''),
      uploaded_image = Some None,
      uploaded_image_key = Some None\<rparr>"

text \<open>
  A complete picture of one grey pixel in PNG format (signature, \<open>IHDR\<close>, \<open>IDAT\<close>, \<open>IEND\<close>,
  67 bytes), which \<open>Image.open\<close> accepts.
\<close>

definition one_pixel_png :: "nat list" where
  "one_pixel_png =
     [137, 80, 78, 71, 13, 10, 26, 10,
      0, 0, 0, 13, 73, 72, 68, 82, 0, 0, 0, 1, 0, 0, 0, 1, 8, 0, 0, 0, 0, 58, 126, 155, 85,
      0, 0, 0, 10, 73, 68, 65, 84, 120, 218, 99, 96, 0, 0, 0, 2, 0, 1, 229, 39, 222, 252,
      0, 0, 0, 0, 73, 69, 78, 68, 174, 66, 96, 130]"

text \<open>A file in the uploader that opens as a picture.\<close>

definition sample_file :: uploaded_file where
  "sample_file = \<lparr>file_name = ''plant.jpg'', file_bytes = one_pixel_png, file_opens = True\<rparr>"


text \<open>All six keys of the session state are present, as after any pass that got past the
  initialization block.\<close>

definition initialized :: "session_state \<Rightarrow> bool" where
  "initialized st =
     (lex_session_id st \<noteq> None \<and> messages st \<noteq> None \<and> current_location st \<noteq> None
      \<and> current_weather st \<noteq> None \<and> uploaded_image st \<noteq> None
      \<and> uploaded_image_key st \<noteq> None)"

text \<open>
  The replies as the chat shows them: concatenated in order, with a blank line (two line
  feeds) before every reply but the first.
\<close>

definition blank_line_joined :: "string list \<Rightarrow> string" where
  "blank_line_joined rs =
     (case rs of [] \<Rightarrow> [] | r # rest \<Rightarrow> r @ concat (map (\<lambda>x. [CHR 0x0A, CHR 0x0A] @ x) rest))"


text \<open>The sample state after the exchange that starts with \<open>hello\<close>.\<close>

definition chatted_state :: session_state where
  "chatted_state =
     sample_state
       \<lparr>messages :=
          Some [\<lparr>role = ''user'', body = ''hello''\<rparr>,
                \<lparr>role = ''assistant'',
                 body = ''Okay, you asked about '' @ [apostrophe] @ ''hello'' @ [apostrophe]
                   @ ''. Location context is '' @ [apostrophe] @ ''Stockholm'' @ [apostrophe]
                   @ ''.''\<rparr>]\<rparr>"

text \<open>
  The shapes of a decoded body that the reading goes through without an exception.
  \<open>values[0]\<close> needs a non-empty list or string.
\<close>

definition nonempty_sequence :: "json \<Rightarrow> bool" where
  "nonempty_sequence vs = (case vs of JArr xs \<Rightarrow> xs \<noteq> [] | JStr s \<Rightarrow> s \<noteq> [] | _ \<Rightarrow> False)"

text \<open>An entry of the parameter list: a dict with a hashable \<open>name\<close> and such \<open>values\<close>.\<close>

definition entry_readable :: "json \<Rightarrow> bool" where
  "entry_readable p =
     (case p of
        JObj kv \<Rightarrow>
          (case map_of kv ''name'' of
             None \<Rightarrow> False
           | Some k \<Rightarrow>
               (case map_of kv ''values'' of
                  None \<Rightarrow> False
                | Some vs \<Rightarrow> nonempty_sequence vs \<and> hashable k))
      | _ \<Rightarrow> False)"

text \<open>
  The value of \<open>parameters\<close>: a list of such entries, or an empty string or dict (nothing to
  iterate over).
\<close>

definition parameters_readable :: "json \<Rightarrow> bool" where
  "parameters_readable pl =
     (case pl of
        JArr ps \<Rightarrow> list_all entry_readable ps
      | JStr s \<Rightarrow> s = []
      | JObj kvs \<Rightarrow> kvs = []
      | _ \<Rightarrow> False)"

text \<open>The first time step: a dict with such \<open>parameters\<close>.\<close>

definition forecast_readable :: "json \<Rightarrow> bool" where
  "forecast_readable fc =
     (case fc of
        JObj f \<Rightarrow> (case map_of f ''parameters'' of None \<Rightarrow> False | Some pl \<Rightarrow> parameters_readable pl)
      | _ \<Rightarrow> False)"

text \<open>The value of \<open>timeSeries\<close>: a list that starts with such a time step.\<close>

definition series_readable :: "json \<Rightarrow> bool" where
  "series_readable ts =
     (case ts of JArr xs \<Rightarrow> (case xs of [] \<Rightarrow> False | fc # _ \<Rightarrow> forecast_readable fc) | _ \<Rightarrow> False)"

text \<open>A body of the right shape whose temperature is a word, not a number.\<close>

definition malformed_body :: json where
  "malformed_body =
     JObj [(''timeSeries'',
            JArr [JObj [(''parameters'',
                         JArr [JObj [(''name'', JStr ''t''),
                                     (''values'', JArr [JStr ''hot''])]])]])]"

text \<open>The file name as the \<open>filename\<close> branch of \<open>upload_to_s3\<close> cleans it.\<close>

definition sanitized :: "string \<Rightarrow> string" where
  "sanitized fn = replace (replace (basename fn) ''..'' ''_'') ''/'' ''_''"

section \<open>Properties of the location registry\<close>

lemma of_char_below_256: "(of_char c :: nat) < 256"
  by (metis of_char_mod_256 mod_less_divisor zero_less_numeral)

lemma lower_upper_char: "lower_char (upper_char c) = lower_char c"
proof -
  define n where "n = (of_char c :: nat)"
  have n: "n < 256" unfolding n_def by (rule of_char_below_256)
  have c: "c = char_of n" unfolding n_def by simp
  show ?thesis
    unfolding c lower_char_def upper_char_def Let_def
    using n by simp arith
qed

lemma lower_lower_char: "lower_char (lower_char c) = lower_char c"
proof -
  define n where "n = (of_char c :: nat)"
  have n: "n < 256" unfolding n_def by (rule of_char_below_256)
  have c: "c = char_of n" unfolding n_def by simp
  show ?thesis
    unfolding c lower_char_def Let_def
    using n by simp
qed

lemma case_variation_lower: "case_variation s t \<Longrightarrow> lower t = lower s"
  unfolding case_variation_def lower_def
  by (induction s t rule: list_all2_induct) (auto simp: lower_upper_char lower_lower_char)

lemma case_variation_length: "case_variation s t \<Longrightarrow> length t = length s"
  unfolding case_variation_def by (simp add: list_all2_lengthD)

lemma registered_lower: "map_of LOCATION_COORDS n = Some c \<Longrightarrow> lower n = n \<and> n \<noteq> []"
  by (auto simp: LOCATION_COORDS_def lower_def lower_char_def split: if_splits)

lemma registered_deaccent:
  "map_of LOCATION_COORDS n = Some c \<Longrightarrow> map_of LOCATION_COORDS (map deaccent_char n) = Some c"
  by (auto simp: LOCATION_COORDS_def deaccent_char_def split: if_splits)

text \<open>
  Claim C7. For every name \<open>n\<close> of \<open>LOCATION_COORDS\<close> with coordinates \<open>c\<close>:
  \<open>get_coordinates\<close> returns \<open>c\<close> for \<open>n\<close>, for every case variation \<open>t\<close> of \<open>n\<close> (any
  choice of upper and lower case, letter by letter), and for the spelling of \<open>n\<close> without
  its accents (the two spellings of Malmo, Goteborg, Orebro, Linkoping and Vasteras).
\<close>

theorem get_coordinates_case_insensitive:
  assumes reg: "map_of LOCATION_COORDS n = Some c" and var: "case_variation n t"
  shows "get_coordinates (Some t) = c \<and> get_coordinates (Some n) = c
         \<and> get_coordinates (Some (map deaccent_char n)) = c"
proof -
  from reg have ln: "lower n = n" and ne: "n \<noteq> []"
    using registered_lower by auto
  from var have lt: "lower t = n"
    using case_variation_lower ln by simp
  from var ne have te: "t \<noteq> []"
    using case_variation_length by fastforce
  have d: "map_of LOCATION_COORDS (map deaccent_char n) = Some c"
    using reg by (rule registered_deaccent)
  then have ld: "lower (map deaccent_char n) = map deaccent_char n"
    using registered_lower by blast
  show ?thesis
    using reg ln ne lt te d ld by (simp add: get_coordinates_def)
qed

theorem get_coordinates_case_insensitive_witness:
  "map_of LOCATION_COORDS (''malm'' @ [o_uml]) = Some (55.60, 13.00)
   \<and> case_variation (''malm'' @ [o_uml]) (''MaLM'' @ [O_uml])
   \<and> get_coordinates (Some (''MaLM'' @ [O_uml])) = (55.60, 13.00)
   \<and> get_coordinates (Some (''malm'' @ [o_uml])) = (55.60, 13.00)
   \<and> get_coordinates (Some ''malmo'') = (55.60, 13.00)"
proof -
  have h1: "map_of LOCATION_COORDS (''malm'' @ [o_uml]) = Some (55.60, 13.00)"
    by (simp add: LOCATION_COORDS_def)
  have h2: "case_variation (''malm'' @ [o_uml]) (''MaLM'' @ [O_uml])"
    by code_simp
  have h3: "map deaccent_char (''malm'' @ [o_uml]) = ''malmo''"
    by (simp add: deaccent_char_def)
  show ?thesis
    using get_coordinates_case_insensitive [OF h1 h2] h1 h2 h3 by simp
qed

section \<open>Properties of the weather fetch\<close>

lemma entry_cases:
  "entry_readable p \<Longrightarrow>
   \<exists>k v. try_bind (subscript_key p ''name'') (\<lambda>k.
          try_bind (subscript_key p ''values'') (\<lambda>vs.
          try_bind (subscript_0 vs) (\<lambda>v.
            if \<not> hashable k then Inl TypeError else f k v))) = f k v"
  by (auto simp: entry_readable_def nonempty_sequence_def try_bind_def subscript_key_def
        subscript_0_def split: json.splits option.splits list.splits)

lemma entry_cases_not:
  "\<not> entry_readable p \<Longrightarrow>
   \<exists>e. try_bind (subscript_key p ''name'') (\<lambda>k.
          try_bind (subscript_key p ''values'') (\<lambda>vs.
          try_bind (subscript_0 vs) (\<lambda>v.
            if \<not> hashable k then Inl TypeError else f k v))) = Inl e"
  by (auto simp: entry_readable_def nonempty_sequence_def try_bind_def subscript_key_def
        subscript_0_def split: json.splits option.splits list.splits)

lemma build_parameters_iff:
  "(\<exists>ps. build_parameters params = Inr ps) \<longleftrightarrow> list_all entry_readable params"
proof (induction params)
  case Nil
  show ?case by simp
next
  case (Cons p params)
  show ?case
  proof (cases "entry_readable p")
    case True
    let ?f = "\<lambda>k v. try_bind (build_parameters params) (\<lambda>ps. Inr ((k, v) # ps))"
    from entry_cases [OF True, of ?f] obtain k v where
      "build_parameters (p # params) = ?f k v" by auto
    then show ?thesis
      using True Cons.IH by (cases "build_parameters params") (auto simp: try_bind_def)
  next
    case False
    let ?f = "\<lambda>k v. try_bind (build_parameters params) (\<lambda>ps. Inr ((k, v) # ps))"
    from entry_cases_not [OF False, of ?f] obtain e where
      "build_parameters (p # params) = Inl e" by auto
    then show ?thesis using False by simp
  qed
qed


lemma build_parameters_unreadable_head:
  "\<not> entry_readable p \<Longrightarrow> \<exists>e. build_parameters (p # rest) = Inl e"
  using build_parameters_iff [of "p # rest"] by (cases "build_parameters (p # rest)") auto

lemma iterate_build_iff:
  "(\<exists>ps. try_bind (iterate pl) build_parameters = Inr ps) \<longleftrightarrow> parameters_readable pl"
proof (cases pl)
  case (JArr ps)
  then show ?thesis
    using build_parameters_iff [of ps]
    by (simp add: iterate_def try_bind_def parameters_readable_def)
next
  case (JStr str)
  show ?thesis
  proof (cases str)
    case Nil
    then show ?thesis using JStr by (simp add: iterate_def try_bind_def parameters_readable_def)
  next
    case (Cons c cs)
    have "\<not> entry_readable (JStr [c])" by (simp add: entry_readable_def)
    then obtain e where "build_parameters (JStr [c] # map (\<lambda>c. JStr [c]) cs) = Inl e"
      using build_parameters_unreadable_head by blast
    then show ?thesis
      using JStr Cons by (simp add: iterate_def try_bind_def parameters_readable_def)
  qed
next
  case (JObj kvs)
  show ?thesis
  proof (cases kvs)
    case Nil
    then show ?thesis using JObj by (simp add: iterate_def try_bind_def parameters_readable_def)
  next
    case (Cons kv rest)
    have "\<not> entry_readable (JStr (fst kv))" by (simp add: entry_readable_def)
    then obtain e where
      "build_parameters (JStr (fst kv) # map (\<lambda>kv. JStr (fst kv)) rest) = Inl e"
      using build_parameters_unreadable_head by blast
    then show ?thesis
      using JObj Cons by (simp add: iterate_def try_bind_def parameters_readable_def)
  qed
qed (simp_all add: iterate_def try_bind_def parameters_readable_def)

lemma try_bind_Inr_tail:
  "(\<exists>x. try_bind m (\<lambda>a. try_bind (h a) (\<lambda>b. Inr (g b))) = Inr x) \<longleftrightarrow> (\<exists>y. try_bind m h = Inr y)"
  by (cases m) (auto simp: try_bind_def split: sum.splits)

lemma read_parameters_iff:
  "(\<exists>x. try_bind (iterate pl) (\<lambda>params. try_bind (build_parameters params) (\<lambda>ps. Inr (g ps)))
          = Inr x) \<longleftrightarrow> parameters_readable pl"
  using try_bind_Inr_tail [of "iterate pl" build_parameters g] iterate_build_iff [of pl] by simp

lemma read_weather_data_series:
  assumes ts: "map_of kvs ''timeSeries'' = Some ts" and tr: "truthy ts"
  shows "(\<exists>x. read_weather_data (JObj kvs) = Inr x) \<longleftrightarrow> series_readable ts"
proof -
  let ?g = "\<lambda>parameters. weather_result
                  \<lparr>temp := parameters_get parameters ''t'',
                   humidity := parameters_get parameters ''r'',
                   precip := parameters_get parameters ''pmean''\<rparr>"
  have rd: "read_weather_data (JObj kvs) =
        try_bind (subscript_0 ts) (\<lambda>first_forecast.
         try_bind (subscript_key first_forecast ''parameters'') (\<lambda>plist.
         try_bind (iterate plist) (\<lambda>params.
         try_bind (build_parameters params) (\<lambda>parameters. Inr (?g parameters)))))"
    using ts tr by (simp add: read_weather_data_def try_bind_def dict_get_def subscript_key_def)
  show ?thesis
  proof (cases ts)
    case (JArr xs)
    show ?thesis
    proof (cases xs)
      case Nil
      then show ?thesis using JArr tr by (simp add: truthy_def)
    next
      case (Cons fc rest)
      show ?thesis
      proof (cases fc)
        case (JObj f)
        show ?thesis
        proof (cases "map_of f ''parameters''")
          case None
          then show ?thesis
            using JArr Cons JObj
            by (simp add: rd subscript_0_def subscript_key_def try_bind_def series_readable_def
                  forecast_readable_def)
        next
          case (Some pl)
          have "read_weather_data (JObj kvs) =
             try_bind (iterate pl) (\<lambda>params.
               try_bind (build_parameters params) (\<lambda>parameters. Inr (?g parameters)))"
            using JArr Cons JObj Some
            by (simp add: rd subscript_0_def subscript_key_def try_bind_def)
          then show ?thesis
            using read_parameters_iff [of pl ?g] JArr Cons JObj Some
            by (simp add: series_readable_def forecast_readable_def)
        qed
      qed (simp_all add: rd JArr Cons subscript_0_def subscript_key_def try_bind_def
             series_readable_def forecast_readable_def)
    qed
  next
    case (JStr str)
    then show ?thesis
      by (cases str)
         (simp_all add: rd subscript_0_def subscript_key_def try_bind_def series_readable_def)
  qed (simp_all add: rd subscript_0_def try_bind_def series_readable_def)
qed

lemma read_weather_data_no_error:
  assumes ts: "map_of kvs ''timeSeries'' = Some ts" and tr: "truthy ts"
    and rd: "read_weather_data (JObj kvs) = Inr x"
  shows "error x = None"
  using assms
  by (auto simp: read_weather_data_def try_bind_def dict_get_def weather_result_def
        split: sum.splits)


lemma read_weather_data_NA:
  "read_weather_data d = Inr r \<Longrightarrow> error r \<noteq> None \<Longrightarrow> temp r = NA \<and> humidity r = NA \<and> precip r = NA"
  by (auto simp: read_weather_data_def try_bind_def weather_result_def
           split: sum.splits if_splits)

text \<open>
  Claim C5, as amended. \<open>get_weather_for_location\<close> returns a snapshot for every input:
  each exception of the request, of the decoding and of the reading of the body is a
  branch of the function and ends in a returned dict. The snapshot carries an error
  message, and then always the three readings \<open>"N/A"\<close>, in these cases: the request raises
  (a \<open>RequestException\<close>, which includes the decoding error of current requests; a plain
  \<open>json.JSONDecodeError\<close>; anything else); the body is not a dict; the body has no
  \<open>timeSeries\<close> or an empty one; the reading of the first time step raises. A body that is
  read without an exception gives a snapshot without an error. The stub makes no request
  and never reports an error.
\<close>

theorem get_weather_for_location_total:
  fixes http location_name
  defines "out \<equiv> http (get_coordinates location_name)"
  defines "r \<equiv> get_weather_for_location http location_name"
  shows "(\<forall>e. out = Raises e \<and> is_RequestException e \<longrightarrow>
            error r = Some ''Could not reach weather service.'')
       \<and> (\<forall>e. out = Raises e \<and> \<not> is_RequestException e \<and> is_JSONDecodeError e \<longrightarrow>
            error r = Some ''Error reading weather data.'')
       \<and> (\<forall>e. out = Raises e \<and> \<not> is_RequestException e \<and> \<not> is_JSONDecodeError e \<longrightarrow>
            error r = Some ''Unexpected weather error.'')
       \<and> (out = Raises RequestsJSONDecodeError \<longrightarrow>
            error r = Some ''Could not reach weather service.'')
       \<and> (\<forall>d. out = Body d \<and> (\<forall>kvs. d \<noteq> JObj kvs) \<longrightarrow>
            error r = Some ''Unexpected weather error.'')
       \<and> (\<forall>kvs. out = Body (JObj kvs) \<and> map_of kvs ''timeSeries'' = None \<longrightarrow>
            error r = Some ''SMHI API data format error.'')
       \<and> (\<forall>kvs ts. out = Body (JObj kvs) \<and> map_of kvs ''timeSeries'' = Some ts \<and> \<not> truthy ts \<longrightarrow>
            error r = Some ''SMHI API data format error.'')
       \<and> (\<forall>kvs ts. out = Body (JObj kvs) \<and> map_of kvs ''timeSeries'' = Some ts \<and> truthy ts
              \<and> \<not> series_readable ts \<longrightarrow>
            error r = Some ''Unexpected weather error.'')
       \<and> (\<forall>kvs ts. out = Body (JObj kvs) \<and> map_of kvs ''timeSeries'' = Some ts
              \<and> series_readable ts \<longrightarrow>
            error r = None)
       \<and> (error r \<noteq> None \<longrightarrow> temp r = NA \<and> humidity r = NA \<and> precip r = NA)
       \<and> error (stub_get_weather_for_location n) = None"
proof -
  have 1: "\<forall>e. out = Raises e \<and> is_RequestException e \<longrightarrow>
            error r = Some ''Could not reach weather service.''"
    by (simp add: out_def r_def get_weather_for_location_def weather_result_def)
  have 2: "\<forall>e. out = Raises e \<and> \<not> is_RequestException e \<and> is_JSONDecodeError e \<longrightarrow>
            error r = Some ''Error reading weather data.''"
    by (simp add: out_def r_def get_weather_for_location_def weather_result_def)
  have 3: "\<forall>e. out = Raises e \<and> \<not> is_RequestException e \<and> \<not> is_JSONDecodeError e \<longrightarrow>
            error r = Some ''Unexpected weather error.''"
    by (simp add: out_def r_def get_weather_for_location_def weather_result_def)
  have 4: "out = Raises RequestsJSONDecodeError \<longrightarrow>
            error r = Some ''Could not reach weather service.''"
    using 1 by (simp add: is_RequestException_def)
  have 5: "\<forall>d. out = Body d \<and> (\<forall>kvs. d \<noteq> JObj kvs) \<longrightarrow>
            error r = Some ''Unexpected weather error.''"
  proof (intro allI impI, elim conjE)
    fix d assume o: "out = Body d" and n: "\<forall>kvs. d \<noteq> JObj kvs"
    have "read_weather_data d = Inl AttributeError"
      using n by (cases d) (simp_all add: read_weather_data_def try_bind_def dict_get_def)
    then show "error r = Some ''Unexpected weather error.''"
      using o by (simp add: out_def r_def get_weather_for_location_def weather_result_def)
  qed
  have 6: "\<forall>kvs. out = Body (JObj kvs) \<and> map_of kvs ''timeSeries'' = None \<longrightarrow>
            error r = Some ''SMHI API data format error.''"
    by (simp add: out_def r_def get_weather_for_location_def weather_result_def
          read_weather_data_def try_bind_def dict_get_def truthy_def)
  have 7: "\<forall>kvs ts. out = Body (JObj kvs) \<and> map_of kvs ''timeSeries'' = Some ts \<and> \<not> truthy ts \<longrightarrow>
            error r = Some ''SMHI API data format error.''"
    by (simp add: out_def r_def get_weather_for_location_def weather_result_def
          read_weather_data_def try_bind_def dict_get_def)
  have 8: "\<forall>kvs ts. out = Body (JObj kvs) \<and> map_of kvs ''timeSeries'' = Some ts \<and> truthy ts
              \<and> \<not> series_readable ts \<longrightarrow>
            error r = Some ''Unexpected weather error.''"
  proof (intro allI impI, elim conjE)
    fix kvs ts
    assume o: "out = Body (JObj kvs)" and t: "map_of kvs ''timeSeries'' = Some ts"
      and tr: "truthy ts" and n: "\<not> series_readable ts"
    have "\<not> (\<exists>x. read_weather_data (JObj kvs) = Inr x)"
      using read_weather_data_series [OF t tr] n by simp
    then obtain e where "read_weather_data (JObj kvs) = Inl e"
      by (cases "read_weather_data (JObj kvs)") auto
    then show "error r = Some ''Unexpected weather error.''"
      using o by (simp add: out_def r_def get_weather_for_location_def weather_result_def)
  qed
  have 9: "\<forall>kvs ts. out = Body (JObj kvs) \<and> map_of kvs ''timeSeries'' = Some ts
              \<and> series_readable ts \<longrightarrow> error r = None"
  proof (intro allI impI, elim conjE)
    fix kvs ts
    assume o: "out = Body (JObj kvs)" and t: "map_of kvs ''timeSeries'' = Some ts"
      and sr: "series_readable ts"
    have tr: "truthy ts"
      using sr by (cases ts) (auto simp: series_readable_def truthy_def split: list.splits)
    obtain x where x: "read_weather_data (JObj kvs) = Inr x"
      using read_weather_data_series [OF t tr] sr by auto
    then have "error x = None"
      using read_weather_data_no_error [OF t tr] by simp
    then show "error r = None"
      using o x by (simp add: out_def r_def get_weather_for_location_def)
  qed
  have 10: "error r \<noteq> None \<longrightarrow> temp r = NA \<and> humidity r = NA \<and> precip r = NA"
  proof (cases out)
    case (Body d)
    then show ?thesis
      using read_weather_data_NA [of d]
      by (cases "read_weather_data d")
         (simp_all add: out_def r_def get_weather_for_location_def weather_result_def)
  qed (simp_all add: out_def r_def get_weather_for_location_def weather_result_def)
  have 11: "error (stub_get_weather_for_location n) = None"
    by (simp add: stub_get_weather_for_location_def)
  show ?thesis using 1 2 3 4 5 6 7 8 9 10 11 by blast
qed

theorem get_weather_for_location_total_witness:
  "error (get_weather_for_location (\<lambda>c. Raises Timeout) (Some ''uppsala'')) =
     Some ''Could not reach weather service.''
   \<and> temp (get_weather_for_location (\<lambda>c. Raises Timeout) (Some ''uppsala'')) = NA
   \<and> humidity (get_weather_for_location (\<lambda>c. Raises Timeout) (Some ''uppsala'')) = NA
   \<and> precip (get_weather_for_location (\<lambda>c. Raises Timeout) (Some ''uppsala'')) = NA
   \<and> error (get_weather_for_location
        (\<lambda>c. Body (JObj [(''timeSeries'', JArr [JObj [(''validTime'', JStr ''now'')]])]))
        (Some ''uppsala'')) = Some ''Unexpected weather error.''
   \<and> error (get_weather_for_location (\<lambda>c. Body (JObj [(''approvedTime'', JStr ''now'')]))
        (Some ''uppsala'')) = Some ''SMHI API data format error.''"
  using get_weather_for_location_total [of "\<lambda>c. Raises Timeout" "Some ''uppsala''"]
    get_weather_for_location_total
      [of "\<lambda>c. Body (JObj [(''timeSeries'', JArr [JObj [(''validTime'', JStr ''now'')]])])"
          "Some ''uppsala''"]
    get_weather_for_location_total
      [of "\<lambda>c. Body (JObj [(''approvedTime'', JStr ''now'')])" "Some ''uppsala''"]
  by (simp add: is_RequestException_def truthy_def series_readable_def forecast_readable_def)

text \<open>
  Claim C5 as stated fails: a malformed body that is read without an exception is not
  reported. Here the temperature of the payload is a word; the snapshot has no error and
  shows the word as the temperature.
\<close>

theorem get_weather_for_location_unreported_malformed_body:
  "error (get_weather_for_location (\<lambda>c. Body malformed_body) (Some ''uppsala'')) = None
   \<and> temp (get_weather_for_location (\<lambda>c. Body malformed_body) (Some ''uppsala'')) = JStr ''hot''
   \<and> temp (get_weather_for_location (\<lambda>c. Body malformed_body) (Some ''uppsala'')) \<noteq> NA"
  by (simp add: get_weather_for_location_def malformed_body_def read_weather_data_def
        try_bind_def dict_get_def truthy_def subscript_key_def subscript_0_def iterate_def
        hashable_def parameters_get_def weather_result_def)

lemma build_parameters_smhi:
  "list_all smhi_parameter params \<Longrightarrow>
   \<exists>ps. build_parameters params = Inr ps
        \<and> (\<forall>kv \<in> set ps. is_num (snd kv))
        \<and> (\<forall>k. JStr k \<in> fst ` set ps \<longleftrightarrow> list_ex (param_named k) params)"
proof (induction params)
  case Nil
  then show ?case by simp
next
  case (Cons p params)
  then obtain ps where ps: "build_parameters params = Inr ps"
      "\<forall>kv \<in> set ps. is_num (snd kv)"
      "\<forall>k. JStr k \<in> fst ` set ps \<longleftrightarrow> list_ex (param_named k) params"
    by auto
  from Cons.prems have sp: "smhi_parameter p" by simp
  obtain kv where p1: "p = JObj kv"
    using sp by (cases p) (auto simp: smhi_parameter_def)
  obtain nm where nm: "map_of kv ''name'' = Some nm"
    using sp p1 by (cases "map_of kv ''name''") (auto simp: smhi_parameter_def)
  obtain n where n: "nm = JStr n"
    using sp p1 nm by (cases nm) (auto simp: smhi_parameter_def)
  obtain vs where vs: "map_of kv ''values'' = Some vs"
    using sp p1 nm n by (cases "map_of kv ''values''") (auto simp: smhi_parameter_def)
  obtain l where l: "vs = JArr l"
    using sp p1 nm n vs by (cases vs) (auto simp: smhi_parameter_def)
  obtain v rest where vr: "l = v # rest"
    using sp p1 nm n vs l by (cases l) (auto simp: smhi_parameter_def)
  obtain x where x: "v = JNum x"
    using sp p1 nm n vs l vr by (cases v) (auto simp: smhi_parameter_def)
  have p: "p = JObj kv" "map_of kv ''name'' = Some (JStr n)"
      "map_of kv ''values'' = Some (JArr (JNum x # rest))"
    using p1 nm n vs l vr x by auto
  have b: "build_parameters (p # params) = Inr ((JStr n, JNum x) # ps)"
    using p ps(1) by (simp add: try_bind_def subscript_key_def subscript_0_def hashable_def)
  have pn: "param_named k p \<longleftrightarrow> k = n" for k
    using p by (auto simp: param_named_def)
  have n1: "\<forall>kv \<in> set ((JStr n, JNum x) # ps). is_num (snd kv)"
    using ps(2) by (simp add: is_num_def)
  have n2: "\<forall>k. JStr k \<in> fst ` set ((JStr n, JNum x) # ps) \<longleftrightarrow> list_ex (param_named k) (p # params)"
    using ps(3) pn by auto
  show ?case
    using b n1 n2 by blast
qed

lemma parameters_get_cases:
  "(JStr k \<notin> fst ` set ps \<longrightarrow> parameters_get ps k = NA)
   \<and> (JStr k \<in> fst ` set ps \<longrightarrow> (\<exists>v. (JStr k, v) \<in> set ps \<and> parameters_get ps k = v))"
proof -
  have "map_of (rev ps) (JStr k) = None \<longleftrightarrow> JStr k \<notin> fst ` set ps"
    by (simp add: map_of_eq_None_iff)
  moreover have "map_of (rev ps) (JStr k) = Some v \<Longrightarrow> (JStr k, v) \<in> set ps" for v
    using map_of_SomeD by fastforce
  ultimately show ?thesis
    by (cases "map_of (rev ps) (JStr k)") (auto simp: parameters_get_def)
qed


lemma reading_cases:
  assumes "\<forall>kv \<in> set ps. is_num (snd kv)"
  shows "(JStr k \<in> fst ` set ps \<longrightarrow> is_num (parameters_get ps k))
       \<and> (JStr k \<notin> fst ` set ps \<longrightarrow> parameters_get ps k = NA)"
  using assms parameters_get_cases [of k ps] by fastforce

text \<open>
  Claim C9, as amended. When the request returns a body whose first time step has a
  parameter list of well-formed entries, the snapshot has no error, and each of the three
  readings is a number if the list has an entry of that name (\<open>t\<close>, \<open>r\<close>, \<open>pmean\<close>) and is
  \<open>"N/A"\<close> if it has none.
\<close>

theorem get_weather_for_location_readings:
  fixes http location_name
  defines "r \<equiv> get_weather_for_location http location_name"
  assumes body: "http (get_coordinates location_name) = Body (JObj kvs)"
    and ts: "map_of kvs ''timeSeries'' = Some (JArr (JObj fc # later))"
    and pl: "map_of fc ''parameters'' = Some (JArr params)"
    and wf: "list_all smhi_parameter params"
  shows "error r = None
       \<and> (list_ex (param_named ''t'') params \<longrightarrow> is_num (temp r))
       \<and> (list_ex (param_named ''r'') params \<longrightarrow> is_num (humidity r))
       \<and> (list_ex (param_named ''pmean'') params \<longrightarrow> is_num (precip r))
       \<and> (\<not> list_ex (param_named ''t'') params \<longrightarrow> temp r = NA)
       \<and> (\<not> list_ex (param_named ''r'') params \<longrightarrow> humidity r = NA)
       \<and> (\<not> list_ex (param_named ''pmean'') params \<longrightarrow> precip r = NA)"
proof -
  from wf obtain ps where ps: "build_parameters params = Inr ps"
      "\<forall>kv \<in> set ps. is_num (snd kv)"
      "\<forall>k. JStr k \<in> fst ` set ps \<longleftrightarrow> list_ex (param_named k) params"
    using build_parameters_smhi by blast
  have rd: "read_weather_data (JObj kvs) =
        Inr (weather_result\<lparr>temp := parameters_get ps ''t'',
                            humidity := parameters_get ps ''r'',
                            precip := parameters_get ps ''pmean''\<rparr>)"
    using ts pl ps(1)
    by (simp add: read_weather_data_def try_bind_def dict_get_def truthy_def
          subscript_key_def subscript_0_def iterate_def)
  have r: "r = weather_result\<lparr>temp := parameters_get ps ''t'',
                            humidity := parameters_get ps ''r'',
                            precip := parameters_get ps ''pmean''\<rparr>"
    using body rd by (simp add: r_def get_weather_for_location_def)
  show ?thesis
    using reading_cases [OF ps(2), of "''t''"] reading_cases [OF ps(2), of "''r''"]
      reading_cases [OF ps(2), of "''pmean''"] ps(3)
    by (simp add: r weather_result_def)
qed

theorem get_weather_for_location_readings_witness:
  "error (get_weather_for_location (\<lambda>c. Body sample_body) (Some ''uppsala'')) = None
   \<and> is_num (temp (get_weather_for_location (\<lambda>c. Body sample_body) (Some ''uppsala'')))
   \<and> is_num (humidity (get_weather_for_location (\<lambda>c. Body sample_body) (Some ''uppsala'')))
   \<and> precip (get_weather_for_location (\<lambda>c. Body sample_body) (Some ''uppsala'')) = NA"
proof -
  let ?fc = "[(''validTime'', JStr ''2025-05-01T12:00:00Z''),
              (''parameters'',
               JArr [JObj [(''name'', JStr ''t''), (''unit'', JStr ''Cel''),
                           (''values'', JArr [JNum 11.5])],
                     JObj [(''name'', JStr ''r''), (''unit'', JStr ''percent''),
                           (''values'', JArr [JNum 64])]])]"
  let ?params = "[JObj [(''name'', JStr ''t''), (''unit'', JStr ''Cel''),
                           (''values'', JArr [JNum 11.5])],
                     JObj [(''name'', JStr ''r''), (''unit'', JStr ''percent''),
                           (''values'', JArr [JNum 64])]]"
  have h1: "(\<lambda>c. Body sample_body) (get_coordinates (Some ''uppsala'')) =
            Body (JObj [(''timeSeries'', JArr [JObj ?fc])])"
    by (simp add: sample_body_def)
  have h2: "map_of [(''timeSeries'', JArr [JObj ?fc])] ''timeSeries'' = Some (JArr (JObj ?fc # []))"
    by simp
  have h3: "map_of ?fc ''parameters'' = Some (JArr ?params)"
    by simp
  have h4: "list_all smhi_parameter ?params"
    by (simp add: smhi_parameter_def)
  show ?thesis
    using get_weather_for_location_readings [OF h1 h2 h3 h4]
    by (simp add: param_named_def)
qed

text \<open>
  Claim C9 as stated fails: the fetch below succeeds, its snapshot has no error, and the
  precipitation reading is \<open>"N/A"\<close>.
\<close>

theorem get_weather_for_location_missing_reading:
  "error (get_weather_for_location (\<lambda>c. Body sample_body) (Some ''uppsala'')) = None
   \<and> precip (get_weather_for_location (\<lambda>c. Body sample_body) (Some ''uppsala'')) = NA
   \<and> \<not> is_num (precip (get_weather_for_location (\<lambda>c. Body sample_body) (Some ''uppsala'')))"
  by (simp add: get_weather_for_location_def sample_body_def read_weather_data_def
        try_bind_def dict_get_def truthy_def subscript_key_def subscript_0_def iterate_def
        hashable_def parameters_get_def weather_result_def is_num_def)

section \<open>Properties of the conversational engine\<close>

text \<open>
  Claim C6, as amended. \<open>post_text_to_lex\<close> returns at least one reply for every behaviour
  of the bot, and every exception of the call is a branch that returns replies. An access
  denial and a missing bot or alias each give one fixed reply; an exception that is not a
  \<open>ClientError\<close> gives the fixed reply \<open>An unexpected error occurred.\<close>; a \<open>ClientError\<close>
  with any other code gives a reply that carries the code, and that reply differs from the
  two fixed replies of the named codes.
\<close>

theorem post_text_to_lex_fallbacks:
  fixes recognize bot_id alias_id session_id input_text session_attributes
  defines "out \<equiv> recognize \<lparr>botId = bot_id, botAliasId = alias_id, localeId = ''en_US'',
                    sessionId = session_id, text_in = input_text,
                    sessionAttributes = (case session_attributes of None \<Rightarrow> [] | Some a \<Rightarrow> a)\<rparr>"
  defines "replies \<equiv> post_text_to_lex recognize bot_id alias_id session_id input_text session_attributes"
  shows "replies \<noteq> []
       \<and> (out = LexClientError (Some ''AccessDeniedException'') \<longrightarrow>
            replies = [''Error: Access denied when calling Lex. Check UI credentials.''])
       \<and> (out = LexClientError (Some ''ResourceNotFoundException'') \<longrightarrow>
            replies = [''Error: Lex bot or alias not found. Check configuration.''])
       \<and> (out = LexOtherError \<longrightarrow> replies = [''An unexpected error occurred.''])
       \<and> (\<forall>code. out = LexClientError code \<and> code \<noteq> Some ''AccessDeniedException''
                 \<and> code \<noteq> Some ''ResourceNotFoundException'' \<longrightarrow>
            replies = [''An error occurred communicating with the bot ('' @ format_code code @ '').'']
            \<and> replies \<noteq> [''Error: Access denied when calling Lex. Check UI credentials.'']
            \<and> replies \<noteq> [''Error: Lex bot or alias not found. Check configuration.''])"
proof -
  have 1: "replies \<noteq> []"
    unfolding replies_def post_text_to_lex_def Let_def
    by (simp split: lex_outcome.split sum.split)
  have 2: "out = LexClientError (Some ''AccessDeniedException'') \<longrightarrow>
            replies = [''Error: Access denied when calling Lex. Check UI credentials.'']"
    unfolding replies_def out_def post_text_to_lex_def Let_def by simp
  have 3: "out = LexClientError (Some ''ResourceNotFoundException'') \<longrightarrow>
            replies = [''Error: Lex bot or alias not found. Check configuration.'']"
    unfolding replies_def out_def post_text_to_lex_def Let_def by simp
  have 4: "out = LexOtherError \<longrightarrow> replies = [''An unexpected error occurred.'']"
    unfolding replies_def out_def post_text_to_lex_def Let_def by simp
  have 5: "\<forall>code. out = LexClientError code \<and> code \<noteq> Some ''AccessDeniedException''
                 \<and> code \<noteq> Some ''ResourceNotFoundException'' \<longrightarrow>
            replies = [''An error occurred communicating with the bot ('' @ format_code code @ '').'']
            \<and> replies \<noteq> [''Error: Access denied when calling Lex. Check UI credentials.'']
            \<and> replies \<noteq> [''Error: Lex bot or alias not found. Check configuration.'']"
    unfolding replies_def out_def post_text_to_lex_def Let_def by simp
  show ?thesis using 1 2 3 4 5 by blast
qed

theorem post_text_to_lex_fallbacks_witness:
  "post_text_to_lex (\<lambda>q. LexClientError (Some ''ThrottlingException'')) ''bot'' ''alias'' ''sid'' ''hello'' None
   = [''An error occurred communicating with the bot (ThrottlingException).'']
   \<and> post_text_to_lex (\<lambda>q. LexClientError (Some ''AccessDeniedException'')) ''bot'' ''alias'' ''sid'' ''hello'' None
   = [''Error: Access denied when calling Lex. Check UI credentials.'']"
  using post_text_to_lex_fallbacks [of "\<lambda>q. LexClientError (Some ''ThrottlingException'')" "''bot''" "''alias''" "''sid''" "''hello''" None]
    post_text_to_lex_fallbacks [of "\<lambda>q. LexClientError (Some ''AccessDeniedException'')" "''bot''" "''alias''" "''sid''" "''hello''" None]
  by (simp add: format_code_def)

text \<open>
  Claim C6 as stated fails: the reply to a generic failure is not one fixed string. Two
  \<open>ClientError\<close>s with different codes get different replies.
\<close>

theorem post_text_to_lex_generic_reply_varies:
  "post_text_to_lex (\<lambda>q. LexClientError (Some ''ThrottlingException'')) ''bot'' ''alias'' ''sid'' ''hello'' None
   \<noteq> post_text_to_lex (\<lambda>q. LexClientError (Some ''ValidationException'')) ''bot'' ''alias'' ''sid'' ''hello'' None"
  by (simp add: post_text_to_lex_def format_code_def)

section \<open>Properties of the upload\<close>

lemma replace_dotdot_Nil: "replace [] ''..'' ''_'' = []"
  by (subst replace.simps) simp

lemma replace_dotdot_single: "replace [c] ''..'' ''_'' = [c]"
  by (subst replace.simps) (simp add: replace_dotdot_Nil)

lemma replace_dotdot_Cons2:
  "replace (c # d # cs) ''..'' ''_'' =
     (if c = CHR ''.'' \<and> d = CHR ''.'' then CHR ''_'' # replace cs ''..'' ''_''
      else c # replace (d # cs) ''..'' ''_'')"
  by (subst replace.simps) simp

lemma replace_dotdot_hd:
  "y \<noteq> CHR ''.'' \<Longrightarrow> \<exists>r. replace (y # zs) ''..'' ''_'' = y # r"
  by (cases zs) (simp_all add: replace_dotdot_single replace_dotdot_Cons2)

lemma replace_dotdot_clean: "\<not> contains (replace s ''..'' ''_'') ''..''"
proof (induction s rule: induct_list012)
  case 1
  show ?case by (simp add: replace_dotdot_Nil)
next
  case (2 x)
  show ?case by (simp add: replace_dotdot_single)
next
  case (3 x y zs)
  show ?case
  proof (cases "x = CHR ''.'' \<and> y = CHR ''.''")
    case True
    then show ?thesis using 3 by (simp add: replace_dotdot_Cons2)
  next
    case False
    show ?thesis
    proof (cases "x = CHR ''.''")
      case True
      then have "y \<noteq> CHR ''.''" using False by simp
      then obtain r where r: "replace (y # zs) ''..'' ''_'' = y # r"
        using replace_dotdot_hd by blast
      show ?thesis
        using False 3(2) r \<open>y \<noteq> CHR ''.''\<close> by (simp add: replace_dotdot_Cons2)
    next
      case nx: False
      show ?thesis
      proof (cases "replace (y # zs) ''..'' ''_''")
        case Nil
        then show ?thesis using False nx by (simp add: replace_dotdot_Cons2)
      next
        case (Cons a as)
        then show ?thesis using False nx 3(2) by (simp add: replace_dotdot_Cons2)
      qed
    qed
  qed
qed

lemma replace_dotdot_set: "set (replace s ''..'' ''_'') \<subseteq> insert CHR ''_'' (set s)"
proof (induction s rule: induct_list012)
  case 1
  show ?case by (simp add: replace_dotdot_Nil)
next
  case (2 x)
  show ?case by (simp add: replace_dotdot_single)
next
  case (3 x y zs)
  then show ?case by (auto simp: replace_dotdot_Cons2)
qed

lemma replace_slash_id: "CHR ''/'' \<notin> set s \<Longrightarrow> replace s ''/'' ''_'' = s"
proof (induction s)
  case Nil
  show ?case by (subst replace.simps) simp
next
  case (Cons c cs)
  then show ?case by (subst replace.simps) auto
qed

lemma basename_no_slash: "CHR ''/'' \<notin> set (basename p)"
  by (auto simp: basename_def dest: set_takeWhileD)

lemma sanitized_clean:
  "CHR ''/'' \<notin> set (sanitized fn) \<and> \<not> contains (sanitized fn) ''..''"
proof -
  have a: "CHR ''/'' \<notin> set (replace (basename fn) ''..'' ''_'')"
    using replace_dotdot_set [of "basename fn"] basename_no_slash [of fn] by auto
  then have b: "sanitized fn = replace (basename fn) ''..'' ''_''"
    by (simp add: sanitized_def replace_slash_id)
  show ?thesis using a b replace_dotdot_clean by simp
qed

lemma upload_to_s3_filename_branch:
  assumes "fn \<noteq> []" and "store bucket_name (''uploads/'' @ u @ ''-'' @ sanitized fn) = Uploaded"
  shows "upload_to_s3 u store \<lparr>filename = Present (Some fn), payload = d\<rparr> bucket_name None
         = Some (''uploads/'' @ u @ ''-'' @ sanitized fn)"
  using assms by (simp add: upload_to_s3_def sanitized_def)


lemma prefixed_keys_distinct:
  "u1 \<noteq> u2 \<Longrightarrow> ''uploads/'' @ u1 @ ''-'' @ n \<noteq> ''uploads/'' @ u2 @ ''-'' @ n"
  by simp

lemma upload_to_s3_supplied_name:
  "upload_to_s3 uuid4 store f bucket_name (Some n) =
     (if store bucket_name n = Uploaded then Some n else None)"
  by (simp add: upload_to_s3_def split: s3_outcome.split)

lemma stub_upload_to_s3_supplied_name:
  "stub_upload_to_s3 uuid4 f bucket_name (Some n) =
     Inr (Some (''uploads/'' @ uuid4 @ ''-'' @ basename n))"
  by (simp add: stub_upload_to_s3_def)

text \<open>
  Claim C1, evaluated. Given the name \<open>../secret\<close> as \<open>object_name\<close>, \<open>upload_to_s3\<close> of
  \<open>aws_utils\<close> returns \<open>../secret\<close> itself as the key, for either of two draws of the random
  token: the key keeps the path separator and the parent-directory token, carries no
  random token, and two uploads under the same name get the same key. The same name found
  as the \<open>filename\<close> of the file object, with no \<open>object_name\<close>, is sanitized and prefixed.
\<close>

theorem upload_to_s3_supplied_name_verbatim:
  "upload_to_s3 ''1b4e28ba-2fa1-41d2-883f-0016d3cca427'' (\<lambda>b k. Uploaded)
     \<lparr>filename = Missing, payload = one_pixel_png\<rparr> ''potato-images'' (Some ''../secret'')
   = Some ''../secret''
   \<and> upload_to_s3 ''6fa459ea-ee8a-4ca4-894e-db77e160355e'' (\<lambda>b k. Uploaded)
     \<lparr>filename = Missing, payload = one_pixel_png\<rparr> ''potato-images'' (Some ''../secret'')
   = Some ''../secret''
   \<and> upload_to_s3 ''1b4e28ba-2fa1-41d2-883f-0016d3cca427'' (\<lambda>b k. Uploaded)
     \<lparr>filename = Present (Some ''../secret''), payload = one_pixel_png\<rparr> ''potato-images'' None
   = Some ''uploads/1b4e28ba-2fa1-41d2-883f-0016d3cca427-secret''"
  by (simp add: upload_to_s3_def basename_def replace.simps)

section \<open>Properties of the application script\<close>

lemma default_available: "module_DEFAULT_LOCATION b \<in> set (AVAILABLE_LOCATIONS b)"
  by (cases b)
     (simp_all add: module_DEFAULT_LOCATION_def AVAILABLE_LOCATIONS_def module_LOCATION_COORDS_def
        STUB_DEFAULT_LOCATION_def DEFAULT_LOCATION_def STUB_LOCATION_COORDS_def LOCATION_COORDS_def)

lemma initialize_empty:
  "initialize b w empty_state =
     \<lparr>sid = ''st-session-'' @ uuid_session w, msgs = [], loc = module_DEFAULT_LOCATION b,
      wx = weather_result, img = None, img_key = None\<rparr>"
  by (simp add: initialize_def empty_state_def)

lemma get_coordinates_uppsala: "get_coordinates (Some ''uppsala'') = (59.86, 17.64)"
  by (simp add: get_coordinates_def lower_def lower_char_def LOCATION_COORDS_def)

text \<open>
  Claim C3, as amended. The first pass of a new connection sets the location to the
  \<open>DEFAULT_LOCATION\<close> of the imported module, leaves the chat history empty and the
  upload keys \<open>None\<close>, fetches the weather for that location and reruns. With \<open>aws_utils\<close>
  the default is \<open>uppsala\<close>, at (59.86, 17.64), and the fetch is the request for these
  coordinates; with \<open>aws_utils_stub\<close>, the module the script imports, the default is
  \<open>Stockholm\<close>, at (59.33, 18.06).
\<close>

theorem session_initialization:
  "run_script b (Some c) w first_load empty_state =
     (\<lparr>lex_session_id = Some (''st-session-'' @ uuid_session w),
       messages = Some [],
       current_location = Some (module_DEFAULT_LOCATION b),
       current_weather =
         Some (module_get_weather_for_location b w (module_DEFAULT_LOCATION b)),
       uploaded_image = Some None,
       uploaded_image_key = Some None\<rparr>,
      [GetWeather (module_DEFAULT_LOCATION b)], Rerun)
   \<and> module_DEFAULT_LOCATION Live = ''uppsala''
   \<and> map_of (module_LOCATION_COORDS Live) ''uppsala'' = Some (59.86, 17.64)
   \<and> module_get_weather_for_location Live w ''uppsala'' =
       get_weather_for_location (\<lambda>c. http w (59.86, 17.64)) (Some ''uppsala'')
   \<and> module_DEFAULT_LOCATION Stub = ''Stockholm''
   \<and> map_of (module_LOCATION_COORDS Stub) ''Stockholm'' = Some (59.33, 18.06)"
proof -
  have 1: "run_script b (Some c) w first_load empty_state =
     (\<lparr>lex_session_id = Some (''st-session-'' @ uuid_session w),
       messages = Some [],
       current_location = Some (module_DEFAULT_LOCATION b),
       current_weather =
         Some (module_get_weather_for_location b w (module_DEFAULT_LOCATION b)),
       uploaded_image = Some None,
       uploaded_image_key = Some None\<rparr>,
      [GetWeather (module_DEFAULT_LOCATION b)], Rerun)"
    using default_available [of b]
    by (simp add: Let_def run_script_def initialize_empty first_load_def second_column_def
          weather_result_def update_weather_def stored_def)
  have 2: "module_DEFAULT_LOCATION Live = ''uppsala''"
    by (simp add: module_DEFAULT_LOCATION_def DEFAULT_LOCATION_def)
  have 3: "map_of (module_LOCATION_COORDS Live) ''uppsala'' = Some (59.86, 17.64)"
    by (simp add: module_LOCATION_COORDS_def LOCATION_COORDS_def)
  have 4: "module_get_weather_for_location Live w ''uppsala'' =
       get_weather_for_location (\<lambda>c. http w (59.86, 17.64)) (Some ''uppsala'')"
    by (simp add: module_get_weather_for_location_def get_weather_for_location_def
          get_coordinates_uppsala)
  have 5: "module_DEFAULT_LOCATION Stub = ''Stockholm''"
    by (simp add: module_DEFAULT_LOCATION_def STUB_DEFAULT_LOCATION_def)
  have 6: "map_of (module_LOCATION_COORDS Stub) ''Stockholm'' = Some (59.33, 18.06)"
    by (simp add: module_LOCATION_COORDS_def STUB_LOCATION_COORDS_def)
  show ?thesis using 1 2 3 4 5 6 by blast
qed

text \<open>
  Claim C3 as stated fails for the script as it is written: it imports the stub, whose
  default location is \<open>Stockholm\<close>.
\<close>

theorem stub_session_starts_in_stockholm:
  "current_location (fst (run_script Stub (Some sample_config) sample_world first_load empty_state))
     = Some ''Stockholm''
   \<and> current_location (fst (run_script Stub (Some sample_config) sample_world first_load empty_state))
     \<noteq> Some ''uppsala''"
  using default_available [of Stub]
  by (simp add: Let_def run_script_def initialize_empty first_load_def second_column_def
        weather_result_def update_weather_def stored_def module_DEFAULT_LOCATION_def
        STUB_DEFAULT_LOCATION_def)

lemma stored_initialize: "initialized st \<Longrightarrow> stored (initialize b w st) = st"
  by (cases st) (auto simp: initialized_def stored_def initialize_def)

text \<open>
  Claim C8. A pass in which the select box returns a name other than the current location
  stores that name as the location, stores the result of the weather fetch for it as the
  weather (a snapshot in every case, \<open>Some\<close>), calls nothing else and reruns. The chat
  history is the one before the pass, and on a session state with all keys present no
  field other than the location and the weather differs from before.
\<close>

theorem change_location:
  fixes b c w inp st new_name
  defines "st' \<equiv> fst (run_script b (Some c) w inp st)"
  assumes av: "loc (initialize b w st) \<in> set (AVAILABLE_LOCATIONS b)"
    and sel: "selected_location inp = Some new_name"
    and new: "new_name \<noteq> loc (initialize b w st)"
  shows "run_script b (Some c) w inp st =
           ((stored (initialize b w st))
              \<lparr>current_location := Some new_name,
               current_weather := Some (module_get_weather_for_location b w new_name)\<rparr>,
            [GetWeather new_name], Rerun)
       \<and> current_location st' = Some new_name
       \<and> current_weather st' = Some (module_get_weather_for_location b w new_name)
       \<and> transcript st' = transcript st
       \<and> (initialized st \<longrightarrow>
            st' = st\<lparr>current_location := Some new_name,
                     current_weather := Some (module_get_weather_for_location b w new_name)\<rparr>)"
proof -
  have run: "run_script b (Some c) w inp st =
           ((stored (initialize b w st))
              \<lparr>current_location := Some new_name,
               current_weather := Some (module_get_weather_for_location b w new_name)\<rparr>,
            [GetWeather new_name], Rerun)"
    using av sel new
    by (simp add: run_script_def Let_def location_handler_def update_weather_def stored_def)
  have t: "transcript st' = transcript st"
    unfolding st'_def run by (simp add: transcript_def stored_def initialize_def)
  show ?thesis
    using run t by (simp add: st'_def stored_initialize)
qed

theorem change_location_witness:
  "loc (initialize Stub sample_world sample_state) \<in> set (AVAILABLE_LOCATIONS Stub)
   \<and> ''Lund'' \<noteq> loc (initialize Stub sample_world sample_state)
   \<and> initialized sample_state
   \<and> run_script Stub (Some sample_config) sample_world
        \<lparr>selected_location = Some ''Lund'', prompt = None, uploaded = None\<rparr> sample_state =
      (sample_state\<lparr>current_location := Some ''Lund'',
                     current_weather := Some (stub_get_weather_for_location ''Lund'')\<rparr>,
       [GetWeather ''Lund''], Rerun)"
proof -
  have l: "loc (initialize Stub sample_world sample_state) = ''Stockholm''"
    by (simp add: initialize_def sample_state_def)
  have h1: "loc (initialize Stub sample_world sample_state) \<in> set (AVAILABLE_LOCATIONS Stub)"
    unfolding l by (simp add: AVAILABLE_LOCATIONS_def module_LOCATION_COORDS_def
        STUB_LOCATION_COORDS_def)
  have h2: "selected_location \<lparr>selected_location = Some ''Lund'', prompt = None, uploaded = None\<rparr>
            = Some ''Lund''"
    by simp
  have h3: "''Lund'' \<noteq> loc (initialize Stub sample_world sample_state)"
    unfolding l by simp
  have i: "initialized sample_state"
    by (simp add: initialized_def sample_state_def)
  have s: "stored (initialize Stub sample_world sample_state) = sample_state"
    using i by (rule stored_initialize)
  show ?thesis
    using change_location [OF h1 h2 h3, of sample_config] h1 h3 i
    by (simp add: s module_get_weather_for_location_def)
qed


lemma join_blank_line: "join [CHR 0x0A, CHR 0x0A] rs = blank_line_joined rs"
  by (induction "[CHR 0x0A, CHR 0x0A]" rs rule: join.induct)
     (simp_all add: blank_line_joined_def)




lemma chat_pass:
  assumes av: "loc (initialize b w st) \<in> set (AVAILABLE_LOCATIONS b)"
    and sel: "selected_location inp = None \<or> selected_location inp = Some (loc (initialize b w st))"
    and pr: "prompt inp = Some p" and ne: "p \<noteq> []"
  shows "run_script b (Some c) w inp st =
    (let s0 = initialize b w st;
         attrs = [(''currentLocation'', loc s0)];
         user_turn = \<lparr>role = ''user'', body = p\<rparr>;
         assistant_turn =
           \<lparr>role = ''assistant'',
            body = join [CHR 0x0A, CHR 0x0A]
              (module_post_text_to_lex b w (LEX_BOT_ID c) (LEX_BOT_ALIAS_ID c) (sid s0) p
                 (Some attrs))\<rparr>
     in ((stored s0)\<lparr>messages := Some (msgs s0 @ [user_turn, assistant_turn])\<rparr>,
         [Appended user_turn,
          PostTextToLex (LEX_BOT_ID c) (LEX_BOT_ALIAS_ID c) (sid s0) p (Some attrs),
          Appended assistant_turn],
         Rerun))"
  using av sel pr ne
  by (auto simp: run_script_def Let_def chat_handler_def stored_def)



lemma sample_state_loc:
  "loc (initialize Stub w sample_state) = ''Stockholm''"
  "sid (initialize Stub w sample_state) = ''st-session-6fa459ea-ee8a-4ca4-894e-db77e160355e''"
  "msgs (initialize Stub w sample_state) = []"
  by (simp_all add: initialize_def sample_state_def)

lemma stockholm_available: "''Stockholm'' \<in> set (AVAILABLE_LOCATIONS Stub)"
  by (simp add: AVAILABLE_LOCATIONS_def module_LOCATION_COORDS_def STUB_LOCATION_COORDS_def)

lemma sample_state_initialized: "initialized sample_state"
  by (simp add: initialized_def sample_state_def)




lemma transcript_stored: "transcript (stored s) = msgs s"
  by (simp add: transcript_def stored_def)

lemma transcript_initialize: "msgs (initialize b w st) = transcript st"
  by (simp add: initialize_def transcript_def)

lemma loc_initialize:
  "loc (initialize b w st) =
     (case current_location st of None \<Rightarrow> module_DEFAULT_LOCATION b | Some l \<Rightarrow> l)"
  by (simp add: initialize_def)

lemma upload_handler_frame:
  "msgs (fst (upload_handler b c w f s)) = msgs s \<and> loc (fst (upload_handler b c w f s)) = loc s"
  by (simp add: upload_handler_def Let_def split: option.split sum.split)

lemma second_column_frame:
  "transcript (fst (second_column b c w inp s)) = msgs s
   \<and> current_location (fst (second_column b c w inp s)) = Some (loc s)"
  using upload_handler_frame [of b c w _ s]
  by (cases "uploaded inp")
     (simp_all add: second_column_def Let_def split_beta transcript_def update_weather_def
        stored_def)

lemma no_chat_pass:
  assumes "cfg = None \<or> (\<exists>x. selected_location inp = Some x \<and> x \<noteq> loc (initialize b w st))
           \<or> prompt inp = None \<or> prompt inp = Some []"
  shows "transcript (fst (run_script b cfg w inp st)) = transcript st"
proof (cases cfg)
  case None
  then show ?thesis by (simp add: run_script_def)
next
  case (Some c)
  show ?thesis
  proof (cases "loc (initialize b w st) \<in> set (AVAILABLE_LOCATIONS b)")
    case False
    then show ?thesis
      using Some by (simp add: run_script_def Let_def transcript_stored transcript_initialize)
  next
    case True
    show ?thesis
    proof (cases "\<exists>x. selected_location inp = Some x \<and> x \<noteq> loc (initialize b w st)")
      case True
      then show ?thesis
        using Some \<open>loc (initialize b w st) \<in> set (AVAILABLE_LOCATIONS b)\<close>
        by (auto simp: run_script_def Let_def transcript_stored transcript_initialize
              location_handler_def update_weather_def)
    next
      case False
      then have "prompt inp = None \<or> prompt inp = Some []" using assms Some by auto
      then show ?thesis
        using Some True False
        by (auto simp: run_script_def Let_def second_column_frame transcript_initialize
              split: option.split)
    qed
  qed
qed

lemma run_script_location:
  assumes "loc (initialize b w st) \<in> set (AVAILABLE_LOCATIONS b)" and "valid_inputs b inp"
  shows "loc (initialize b w' (fst (run_script b cfg w inp st))) \<in> set (AVAILABLE_LOCATIONS b)"
proof (cases cfg)
  case None
  then show ?thesis using assms by (simp add: run_script_def loc_initialize)
next
  case (Some c)
  then show ?thesis
    using assms second_column_frame [of b c w inp "initialize b w st"]
    by (auto simp: run_script_def Let_def loc_initialize valid_inputs_def stored_def
          location_handler_def update_weather_def chat_handler_def
          split: option.splits)
qed

lemma reachable_location:
  "reachable b st \<Longrightarrow> loc (initialize b w st) \<in> set (AVAILABLE_LOCATIONS b)"
proof (induction arbitrary: w rule: reachable.induct)
  case reachable_empty
  show ?case by (simp add: initialize_empty default_available)
next
  case (reachable_pass st inp cfg w0)
  show ?case
    using run_script_location [OF reachable_pass.IH reachable_pass.hyps(2)] .
qed

lemma alternates_append:
  "alternates xs \<Longrightarrow> role u = ''user'' \<Longrightarrow> role a = ''assistant'' \<Longrightarrow> alternates (xs @ [u, a])"
  by (induction xs rule: alternates.induct) auto

lemma alternates_even: "alternates xs \<Longrightarrow> even (length xs)"
  by (induction xs rule: alternates.induct) auto

lemma chat_pass_transcript:
  assumes av: "loc (initialize b w st) \<in> set (AVAILABLE_LOCATIONS b)"
    and sel: "selected_location inp = None \<or> selected_location inp = Some (loc (initialize b w st))"
    and pr: "prompt inp = Some p" and ne: "p \<noteq> []"
  shows "transcript (fst (run_script b (Some c) w inp st)) =
     transcript st @
       [\<lparr>role = ''user'', body = p\<rparr>,
        \<lparr>role = ''assistant'',
         body = blank_line_joined
           (module_post_text_to_lex b w (LEX_BOT_ID c) (LEX_BOT_ALIAS_ID c)
              (sid (initialize b w st)) p
              (Some [(''currentLocation'', loc (initialize b w st))]))\<rparr>]"
  using chat_pass [OF av sel pr ne, of c]
  by (simp add: Let_def transcript_def join_blank_line) (simp add: initialize_def)

lemma reachable_alternates: "reachable b st \<Longrightarrow> alternates (transcript st)"
proof (induction rule: reachable.induct)
  case reachable_empty
  show ?case by (simp add: transcript_def empty_state_def)
next
  case (reachable_pass st inp cfg w)
  have av: "loc (initialize b w st) \<in> set (AVAILABLE_LOCATIONS b)"
    using reachable_pass.hyps(1) by (rule reachable_location)
  show ?case
  proof (cases "cfg = None \<or> (\<exists>x. selected_location inp = Some x \<and> x \<noteq> loc (initialize b w st))
           \<or> prompt inp = None \<or> prompt inp = Some []")
    case True
    then show ?thesis using no_chat_pass reachable_pass.IH by simp
  next
    case False
    then obtain c p where c: "cfg = Some c" and p: "prompt inp = Some p" "p \<noteq> []"
      and sel: "selected_location inp = None \<or> selected_location inp = Some (loc (initialize b w st))"
      by (cases cfg; cases "prompt inp"; cases "selected_location inp") auto
    show ?thesis
      unfolding c chat_pass_transcript [OF av sel p]
      using reachable_pass.IH by (simp add: alternates_append)
  qed
qed

text \<open>
  Claim C10. In every reachable session state the chat history is a sequence of pairs, a
  user turn followed by an assistant turn, so its length is even. A pass that reaches the
  chat input with a non-empty text (the configuration is present and the select box did
  not change the location) appends exactly one such pair to the end of the history: the
  user turn with the text and the assistant turn with the joined replies. Every other pass
  leaves the history as it is. The history of a new connection is empty, and so is the one
  the initialization block sets.
\<close>

theorem transcript_alternates:
  fixes b st cfg w inp
  defines "st' \<equiv> fst (run_script b cfg w inp st)"
  defines "cur \<equiv> loc (initialize b w st)"
  assumes r: "reachable b st"
  shows "alternates (transcript st) \<and> even (length (transcript st))
       \<and> (\<forall>c p. cfg = Some c
              \<and> (selected_location inp = None \<or> selected_location inp = Some cur)
              \<and> prompt inp = Some p \<and> p \<noteq> [] \<longrightarrow>
            transcript st' =
              transcript st @
                [\<lparr>role = ''user'', body = p\<rparr>,
                 \<lparr>role = ''assistant'',
                  body = blank_line_joined
                    (module_post_text_to_lex b w (LEX_BOT_ID c) (LEX_BOT_ALIAS_ID c)
                       (sid (initialize b w st)) p (Some [(''currentLocation'', cur)]))\<rparr>])
       \<and> (cfg = None \<or> (\<exists>x. selected_location inp = Some x \<and> x \<noteq> cur)
              \<or> prompt inp = None \<or> prompt inp = Some [] \<longrightarrow>
            transcript st' = transcript st)
       \<and> transcript empty_state = []
       \<and> msgs (initialize b w empty_state) = []"
proof -
  have a: "alternates (transcript st)"
    using r by (rule reachable_alternates)
  then have e: "even (length (transcript st))"
    by (rule alternates_even)
  have av: "loc (initialize b w st) \<in> set (AVAILABLE_LOCATIONS b)"
    using r by (rule reachable_location)
  have c: "\<forall>c p. cfg = Some c
              \<and> (selected_location inp = None \<or> selected_location inp = Some cur)
              \<and> prompt inp = Some p \<and> p \<noteq> [] \<longrightarrow>
            transcript st' =
              transcript st @
                [\<lparr>role = ''user'', body = p\<rparr>,
                 \<lparr>role = ''assistant'',
                  body = blank_line_joined
                    (module_post_text_to_lex b w (LEX_BOT_ID c) (LEX_BOT_ALIAS_ID c)
                       (sid (initialize b w st)) p (Some [(''currentLocation'', cur)]))\<rparr>]"
    using chat_pass_transcript [OF av] by (simp add: st'_def cur_def)
  have n: "cfg = None \<or> (\<exists>x. selected_location inp = Some x \<and> x \<noteq> cur)
              \<or> prompt inp = None \<or> prompt inp = Some [] \<longrightarrow>
            transcript st' = transcript st"
    using no_chat_pass [of cfg inp b w st] by (simp add: st'_def cur_def)
  have i: "transcript empty_state = []" "msgs (initialize b w empty_state) = []"
    by (simp_all add: transcript_def empty_state_def initialize_def)
  show ?thesis
    using a e c n i by blast
qed


lemma first_load_pass:
  "fst (run_script Stub (Some sample_config) sample_world first_load empty_state) = sample_state"
  using default_available [of Stub]
  by (simp add: Let_def run_script_def initialize_empty first_load_def second_column_def
        weather_result_def update_weather_def stored_def module_DEFAULT_LOCATION_def
        STUB_DEFAULT_LOCATION_def sample_state_def sample_world_def
        module_get_weather_for_location_def)

lemma hello_pass:
  "fst (run_script Stub (Some sample_config) sample_world
      \<lparr>selected_location = None, prompt = Some ''hello'', uploaded = None\<rparr> sample_state)
   = chatted_state"
proof -
  have r: "stub_post_text_to_lex bid aid sn ''hello'' (Some [(''currentLocation'', ''Stockholm'')]) =
           [''Okay, you asked about '' @ [apostrophe] @ ''hello'' @ [apostrophe]
              @ ''. Location context is '' @ [apostrophe] @ ''Stockholm'' @ [apostrophe] @ ''.'']"
    for bid aid sn
    by (simp add: stub_post_text_to_lex_def lower_def lower_char_def)
  have s: "stored (initialize Stub sample_world sample_state) = sample_state"
    using sample_state_initialized by (rule stored_initialize)
  have "loc (initialize Stub sample_world sample_state) \<in> set (AVAILABLE_LOCATIONS Stub)"
    by (simp add: sample_state_loc stockholm_available)
  then show ?thesis
    using chat_pass [of Stub sample_world sample_state
        "\<lparr>selected_location = None, prompt = Some ''hello'', uploaded = None\<rparr>" "''hello''"
        sample_config]
    by (simp add: Let_def s sample_state_loc r module_post_text_to_lex_def chatted_state_def)
qed

theorem transcript_alternates_witness:
  "reachable Stub chatted_state
   \<and> transcript chatted_state =
       [\<lparr>role = ''user'', body = ''hello''\<rparr>,
        \<lparr>role = ''assistant'',
         body = ''Okay, you asked about '' @ [apostrophe] @ ''hello'' @ [apostrophe]
           @ ''. Location context is '' @ [apostrophe] @ ''Stockholm'' @ [apostrophe] @ ''.''\<rparr>]
   \<and> alternates (transcript chatted_state)
   \<and> transcript (fst (run_script Stub (Some sample_config) sample_world
        \<lparr>selected_location = None, prompt = Some ''thanks'', uploaded = None\<rparr> chatted_state)) =
       [\<lparr>role = ''user'', body = ''hello''\<rparr>,
        \<lparr>role = ''assistant'',
         body = ''Okay, you asked about '' @ [apostrophe] @ ''hello'' @ [apostrophe]
           @ ''. Location context is '' @ [apostrophe] @ ''Stockholm'' @ [apostrophe] @ ''.''\<rparr>,
        \<lparr>role = ''user'', body = ''thanks''\<rparr>,
        \<lparr>role = ''assistant'',
         body = ''Okay, you asked about '' @ [apostrophe] @ ''thanks'' @ [apostrophe]
           @ ''. Location context is '' @ [apostrophe] @ ''Stockholm'' @ [apostrophe] @ ''.''\<rparr>]
   \<and> transcript (fst (run_script Stub (Some sample_config) sample_world
        \<lparr>selected_location = Some ''Lund'', prompt = None, uploaded = None\<rparr> chatted_state)) =
       transcript chatted_state"
proof -
  let ?hello = "\<lparr>selected_location = None, prompt = Some ''hello'', uploaded = None\<rparr>"
  let ?thanks = "\<lparr>selected_location = None, prompt = Some ''thanks'', uploaded = None\<rparr>"
  let ?lund = "\<lparr>selected_location = Some ''Lund'', prompt = None, uploaded = None\<rparr>"
  have v0: "valid_inputs Stub first_load"
    by (simp add: valid_inputs_def first_load_def)
  have r0: "reachable Stub sample_state"
    using reachable_pass [OF reachable_empty v0, of "Some sample_config" sample_world]
    by (simp add: first_load_pass)
  have v1: "valid_inputs Stub ?hello"
    by (simp add: valid_inputs_def)
  have r1: "reachable Stub chatted_state"
    using reachable_pass [OF r0 v1, of "Some sample_config" sample_world]
    by (simp add: hello_pass)
  have t: "transcript chatted_state =
       [\<lparr>role = ''user'', body = ''hello''\<rparr>,
        \<lparr>role = ''assistant'',
         body = ''Okay, you asked about '' @ [apostrophe] @ ''hello'' @ [apostrophe]
           @ ''. Location context is '' @ [apostrophe] @ ''Stockholm'' @ [apostrophe] @ ''.''\<rparr>]"
    by (simp add: transcript_def chatted_state_def)
  have i: "loc (initialize Stub sample_world chatted_state) = ''Stockholm''"
    by (simp add: initialize_def chatted_state_def sample_state_def)
  have r: "stub_post_text_to_lex bid aid sn ''thanks'' (Some [(''currentLocation'', ''Stockholm'')]) =
           [''Okay, you asked about '' @ [apostrophe] @ ''thanks'' @ [apostrophe]
              @ ''. Location context is '' @ [apostrophe] @ ''Stockholm'' @ [apostrophe] @ ''.'']"
    for bid aid sn
    by (simp add: stub_post_text_to_lex_def lower_def lower_char_def)
  show ?thesis
    using transcript_alternates [OF r1, of "Some sample_config" ?thanks sample_world]
      transcript_alternates [OF r1, of "Some sample_config" ?lund sample_world] r1
    by (simp add: t i r module_post_text_to_lex_def blank_line_joined_def)
qed

lemma basename_after_slash: "CHR ''/'' \<notin> set t \<Longrightarrow> basename (p @ CHR ''/'' # t) = t"
proof -
  assume t: "CHR ''/'' \<notin> set t"
  have "takeWhile (\<lambda>c. c \<noteq> CHR ''/'') (rev t @ CHR ''/'' # rev p) = rev t"
    using t by (subst takeWhile_append2) auto
  then show ?thesis by (simp add: basename_def)
qed

text \<open>
  Claim C2, as amended. After a successful upload of the file \<open>plant.jpg\<close> the stored
  \<open>uploaded_image_key\<close> is the base name of the returned key, what follows its last slash.
  For a key of the form \<open>uploads/<token>-plant.jpg\<close>, which is what the stub returns, the
  stored name is \<open><token>-plant.jpg\<close>: the random token is part of it.
\<close>

theorem upload_display_name:
  fixes b c w inp st f key
  defines "s0 \<equiv> initialize b w st"
  assumes av: "loc s0 \<in> set (AVAILABLE_LOCATIONS b)"
    and sel: "selected_location inp = None \<or> selected_location inp = Some (loc s0)"
    and pr: "prompt inp = None \<or> prompt inp = Some []"
    and up: "uploaded inp = Some f"
    and opens: "file_opens f"
    and name: "file_name f = ''plant.jpg''"
    and ok: "module_upload_to_s3 b w \<lparr>filename = Missing, payload = file_bytes f\<rparr> (S3_BUCKET c)
               (Some ''plant.jpg'') = Inr (Some key)"
    and ne: "key \<noteq> []"
  shows "uploaded_image_key (fst (run_script b (Some c) w inp st)) = Some (Some (basename key))
       \<and> (\<forall>token. key = ''uploads/'' @ token @ ''-plant.jpg'' \<and> CHR ''/'' \<notin> set token \<longrightarrow>
            basename key = token @ ''-plant.jpg'')
       \<and> (b = Stub \<longrightarrow> key = ''uploads/'' @ uuid_upload w @ ''-plant.jpg'')"
proof -
  have h: "img_key (fst (upload_handler b c w f s0)) = Some (basename key)"
    using opens name ok ne by (simp add: upload_handler_def Let_def)
  have sc: "uploaded_image_key (fst (second_column b c w inp s0)) = Some (Some (basename key))"
    using up h
    by (simp add: second_column_def Let_def split_beta stored_def update_weather_def)
  have run: "run_script b (Some c) w inp st = second_column b c w inp s0"
    using av sel pr by (auto simp: run_script_def Let_def s0_def)
  have fmt: "\<forall>token. key = ''uploads/'' @ token @ ''-plant.jpg'' \<and> CHR ''/'' \<notin> set token \<longrightarrow>
            basename key = token @ ''-plant.jpg''"
  proof (intro allI impI, elim conjE)
    fix token
    assume k: "key = ''uploads/'' @ token @ ''-plant.jpg''" and u: "CHR ''/'' \<notin> set token"
    have k': "key = ''uploads'' @ CHR ''/'' # (token @ ''-plant.jpg'')" using k by simp
    have "CHR ''/'' \<notin> set (token @ ''-plant.jpg'')" using u by simp
    then show "basename key = token @ ''-plant.jpg''"
      unfolding k' by (rule basename_after_slash)
  qed
  have stub: "b = Stub \<longrightarrow> key = ''uploads/'' @ uuid_upload w @ ''-plant.jpg''"
    using ok by (auto simp: module_upload_to_s3_def stub_upload_to_s3_def basename_def)
  show ?thesis
    unfolding run using sc fmt stub by blast
qed

theorem upload_display_name_witness:
  "uploaded_image_key (fst (run_script Stub (Some sample_config) sample_world
      \<lparr>selected_location = None, prompt = None, uploaded = Some sample_file\<rparr> sample_state))
    = Some (Some ''1b4e28ba-2fa1-41d2-883f-0016d3cca427-plant.jpg'')"
proof -
  let ?inp = "\<lparr>selected_location = None, prompt = None, uploaded = Some sample_file\<rparr>"
  have h1: "loc (initialize Stub sample_world sample_state) \<in> set (AVAILABLE_LOCATIONS Stub)"
    by (simp add: sample_state_loc stockholm_available)
  have h2: "selected_location ?inp = None
            \<or> selected_location ?inp = Some (loc (initialize Stub sample_world sample_state))"
    by simp
  have h3: "prompt ?inp = None \<or> prompt ?inp = Some []" by simp
  have h4: "uploaded ?inp = Some sample_file" by simp
  have h5: "file_opens sample_file" by (simp add: sample_file_def)
  have h6: "file_name sample_file = ''plant.jpg''" by (simp add: sample_file_def)
  have h7: "module_upload_to_s3 Stub sample_world
              \<lparr>filename = Missing, payload = file_bytes sample_file\<rparr> (S3_BUCKET sample_config)
              (Some ''plant.jpg'')
            = Inr (Some ''uploads/1b4e28ba-2fa1-41d2-883f-0016d3cca427-plant.jpg'')"
    by (simp add: module_upload_to_s3_def stub_upload_to_s3_def basename_def sample_world_def)
  have h8: "''uploads/1b4e28ba-2fa1-41d2-883f-0016d3cca427-plant.jpg'' \<noteq> []" by simp
  have k1: "''uploads/1b4e28ba-2fa1-41d2-883f-0016d3cca427-plant.jpg''
           = ''uploads/'' @ ''1b4e28ba-2fa1-41d2-883f-0016d3cca427'' @ ''-plant.jpg''"
    by simp
  have k2: "CHR ''/'' \<notin> set ''1b4e28ba-2fa1-41d2-883f-0016d3cca427''"
    by simp
  note th = upload_display_name [OF h1 h2 h3 h4 h5 h6 h7 h8]
  note fmt = th [THEN conjunct2, THEN conjunct1, rule_format,
                 of "''1b4e28ba-2fa1-41d2-883f-0016d3cca427''"]
  have stored_name:
    "uploaded_image_key (fst (run_script Stub (Some sample_config) sample_world ?inp sample_state))
     = Some (Some (basename ''uploads/1b4e28ba-2fa1-41d2-883f-0016d3cca427-plant.jpg''))"
    using th by (rule conjunct1)
  have "basename ''uploads/1b4e28ba-2fa1-41d2-883f-0016d3cca427-plant.jpg''
         = ''1b4e28ba-2fa1-41d2-883f-0016d3cca427'' @ ''-plant.jpg''"
    by (rule fmt [OF conjI [OF k1 k2]])
  then have "basename ''uploads/1b4e28ba-2fa1-41d2-883f-0016d3cca427-plant.jpg''
         = ''1b4e28ba-2fa1-41d2-883f-0016d3cca427-plant.jpg''"
    by simp
  then show ?thesis
    unfolding stored_name by simp
qed

text \<open>
  Claim C2 as stated fails: the name stored for the chat carries the random token and is
  not \<open>plant.jpg\<close>.
\<close>

theorem upload_display_name_keeps_token:
  "uploaded_image_key (fst (run_script Stub (Some sample_config) sample_world
      \<lparr>selected_location = None, prompt = None, uploaded = Some sample_file\<rparr> sample_state))
    = Some (Some ''1b4e28ba-2fa1-41d2-883f-0016d3cca427-plant.jpg'')
   \<and> uploaded_image_key (fst (run_script Stub (Some sample_config) sample_world
      \<lparr>selected_location = None, prompt = None, uploaded = Some sample_file\<rparr> sample_state))
    \<noteq> Some (Some ''plant.jpg'')"
proof -
  have k: "module_upload_to_s3 Stub sample_world
              \<lparr>filename = Missing, payload = file_bytes sample_file\<rparr> (S3_BUCKET sample_config)
              (Some (file_name sample_file))
            = Inr (Some ''uploads/1b4e28ba-2fa1-41d2-883f-0016d3cca427-plant.jpg'')"
    by (simp add: module_upload_to_s3_def stub_upload_to_s3_def basename_def sample_world_def
          sample_file_def)
  have b: "basename ''uploads/1b4e28ba-2fa1-41d2-883f-0016d3cca427-plant.jpg''
           = ''1b4e28ba-2fa1-41d2-883f-0016d3cca427-plant.jpg''"
    by (simp add: basename_def)
  have o: "file_opens sample_file" by (simp add: sample_file_def)
  have "uploaded_image_key (fst (run_script Stub (Some sample_config) sample_world
      \<lparr>selected_location = None, prompt = None, uploaded = Some sample_file\<rparr> sample_state))
    = Some (Some ''1b4e28ba-2fa1-41d2-883f-0016d3cca427-plant.jpg'')"
    using stockholm_available
    by (simp add: run_script_def Let_def sample_state_loc second_column_def upload_handler_def
          k b o split_beta stored_def update_weather_def)
  then show ?thesis by simp
qed

end
